theory Spec2Isabelle
  imports Complex_Main
begin

section \<open>Numbers and vectors\<close>

text \<open>
  The game computes with JavaScript numbers. Coordinates, angles and speeds are modelled
  as \<^typ>\<open>real\<close>; counters that the code only ever increments or decrements by one
  (lives, timers, lifetimes) are modelled as \<^typ>\<open>int\<close>.
\<close>

record Vec2 =
  vec_x :: real
  vec_y :: real

definition Vec2_new :: "real \<Rightarrow> real \<Rightarrow> Vec2" where
  "Vec2_new a b = \<lparr>vec_x = a, vec_y = b\<rparr>"

definition Vec2_zero :: Vec2 where
  "Vec2_zero = Vec2_new 0 0"

definition fromAngle :: "real \<Rightarrow> Vec2" where
  "fromAngle angle = Vec2_new (cos angle) (sin angle)"

definition add :: "Vec2 \<Rightarrow> Vec2 \<Rightarrow> Vec2" where
  "add this other = Vec2_new (vec_x this + vec_x other) (vec_y this + vec_y other)"

definition sub :: "Vec2 \<Rightarrow> Vec2 \<Rightarrow> Vec2" where
  "sub this other = Vec2_new (vec_x this - vec_x other) (vec_y this - vec_y other)"

definition mul :: "Vec2 \<Rightarrow> real \<Rightarrow> Vec2" where
  "mul this scalar = Vec2_new (vec_x this * scalar) (vec_y this * scalar)"

definition div_vec :: "Vec2 \<Rightarrow> real \<Rightarrow> Vec2" where
  "div_vec this scalar = Vec2_new (vec_x this / scalar) (vec_y this / scalar)"

definition lengthSq :: "Vec2 \<Rightarrow> real" where
  "lengthSq this = vec_x this * vec_x this + vec_y this * vec_y this"

definition length_vec :: "Vec2 \<Rightarrow> real" where
  "length_vec this = sqrt (vec_x this * vec_x this + vec_y this * vec_y this)"

definition normalize_vec :: "Vec2 \<Rightarrow> Vec2" where
  "normalize_vec this =
     (let len = length_vec this in
      if len = 0 then Vec2_new 0 0 else div_vec this len)"

definition clamp :: "Vec2 \<Rightarrow> real \<Rightarrow> Vec2" where
  "clamp this maxLength =
     (let len = length_vec this in
      if len > maxLength then mul (normalize_vec this) maxLength
      else Vec2_new (vec_x this) (vec_y this))"

definition clone :: "Vec2 \<Rightarrow> Vec2" where
  "clone this = Vec2_new (vec_x this) (vec_y this)"

section \<open>Configuration constants\<close>

definition SHIP_ROTATION_SPEED :: real where "SHIP_ROTATION_SPEED = 6 / 100"
definition SHIP_THRUST :: real where "SHIP_THRUST = 12 / 100"
definition SHIP_DRAG :: real where "SHIP_DRAG = 992 / 1000"
definition SHIP_MAX_SPEED :: real where "SHIP_MAX_SPEED = 5"
definition WORLD_WIDTH :: real where "WORLD_WIDTH = 1200"
definition WORLD_HEIGHT :: real where "WORLD_HEIGHT = 800"

definition MAX_CARGO_SLOTS :: nat where "MAX_CARGO_SLOTS = 4"
definition MAX_LIVES :: int where "MAX_LIVES = 3"
definition INVULNERABILITY_TIME :: int where "INVULNERABILITY_TIME = 3 * 60"
definition SHIP_COLLISION_RADIUS :: real where "SHIP_COLLISION_RADIUS = 15"

definition WORMHOLE_RADIUS :: real where "WORMHOLE_RADIUS = 80"
definition WORMHOLE_BANKING_RADIUS :: real where "WORMHOLE_BANKING_RADIUS = 120"
definition WORMHOLE_ROTATION_SPEED :: real where "WORMHOLE_ROTATION_SPEED = 18 / 1000"

section \<open>Orb types\<close>

datatype OrbType = RED | BLUE | GREEN | GOLD

section \<open>Ship\<close>

text \<open>
  A cargo slot is \<open>OrbType | null\<close>: \<^const>\<open>None\<close> is the empty slot. The colour of
  a ship is presentation only and is left out.
\<close>

record Ship =
  ship_position :: Vec2
  ship_velocity :: Vec2
  angle :: real
  previousPosition :: Vec2
  previousAngle :: real
  thrusting :: bool
  rotatingLeft :: bool
  rotatingRight :: bool
  cargo :: "OrbType option list"
  lives :: int
  invulnerabilityTimer :: int
  isDead :: bool
  speedBoost :: real

definition Ship_new :: "real \<Rightarrow> real \<Rightarrow> Ship" where
  "Ship_new a b =
     \<lparr>ship_position = Vec2_new a b,
      ship_velocity = Vec2_zero,
      angle = - pi / 2,
      previousPosition = clone (Vec2_new a b),
      previousAngle = - pi / 2,
      thrusting = False,
      rotatingLeft = False,
      rotatingRight = False,
      cargo = replicate MAX_CARGO_SLOTS None,
      lives = MAX_LIVES,
      invulnerabilityTimer = 0,
      isDead = False,
      speedBoost = 1\<rparr>"

definition savePreviousState :: "Ship \<Rightarrow> Ship" where
  "savePreviousState s =
     s\<lparr>previousPosition := clone (ship_position s), previousAngle := angle s\<rparr>"

text \<open>
  \<open>wrapPosition\<close> shifts the position by one world width (height) when it has left the
  world on that axis, and shifts the previous position by the same amount.
\<close>

definition wrapPosition :: "Ship \<Rightarrow> Ship" where
  "wrapPosition s =
     (let s1 =
        (if vec_x (ship_position s) < 0 then
           s\<lparr>ship_position := (ship_position s)\<lparr>vec_x := vec_x (ship_position s) + WORLD_WIDTH\<rparr>,
             previousPosition := (previousPosition s)\<lparr>vec_x := vec_x (previousPosition s) + WORLD_WIDTH\<rparr>\<rparr>
         else if vec_x (ship_position s) > WORLD_WIDTH then
           s\<lparr>ship_position := (ship_position s)\<lparr>vec_x := vec_x (ship_position s) - WORLD_WIDTH\<rparr>,
             previousPosition := (previousPosition s)\<lparr>vec_x := vec_x (previousPosition s) - WORLD_WIDTH\<rparr>\<rparr>
         else s)
      in
        (if vec_y (ship_position s1) < 0 then
           s1\<lparr>ship_position := (ship_position s1)\<lparr>vec_y := vec_y (ship_position s1) + WORLD_HEIGHT\<rparr>,
              previousPosition := (previousPosition s1)\<lparr>vec_y := vec_y (previousPosition s1) + WORLD_HEIGHT\<rparr>\<rparr>
         else if vec_y (ship_position s1) > WORLD_HEIGHT then
           s1\<lparr>ship_position := (ship_position s1)\<lparr>vec_y := vec_y (ship_position s1) - WORLD_HEIGHT\<rparr>,
              previousPosition := (previousPosition s1)\<lparr>vec_y := vec_y (previousPosition s1) - WORLD_HEIGHT\<rparr>\<rparr>
         else s1))"

definition Ship_update :: "Ship \<Rightarrow> Ship" where
  "Ship_update s =
     (if isDead s then s
      else
        let s1 = (if rotatingLeft s then s\<lparr>angle := angle s - SHIP_ROTATION_SPEED\<rparr> else s);
            s2 = (if rotatingRight s1 then s1\<lparr>angle := angle s1 + SHIP_ROTATION_SPEED\<rparr> else s1);
            s3 = (if thrusting s2 then
                    let thrustVector = mul (fromAngle (angle s2)) (SHIP_THRUST * speedBoost s2)
                    in s2\<lparr>ship_velocity := add (ship_velocity s2) thrustVector\<rparr>
                  else s2);
            s4 = s3\<lparr>ship_velocity := clamp (ship_velocity s3) (SHIP_MAX_SPEED * speedBoost s3)\<rparr>;
            s5 = s4\<lparr>ship_velocity := mul (ship_velocity s4) SHIP_DRAG\<rparr>;
            s6 = s5\<lparr>ship_position := add (ship_position s5) (ship_velocity s5)\<rparr>;
            s7 = wrapPosition s6;
            s8 = (if invulnerabilityTimer s7 > 0
                  then s7\<lparr>invulnerabilityTimer := invulnerabilityTimer s7 - 1\<rparr> else s7)
        in s8\<lparr>speedBoost := 1\<rparr>)"

text \<open>
  The blocks of \<open>update\<close> taken one at a time, for the proofs: rotation; thrust, speed
  cap and drag; position update and screen wrap; invulnerability timer and speed-boost
  reset. \<open>Ship_update_stages\<close> below shows that \<open>Ship_update\<close> is their composition.
\<close>

definition steer :: "Ship \<Rightarrow> Ship" where
  "steer s =
     (let s1 = (if rotatingLeft s then s\<lparr>angle := angle s - SHIP_ROTATION_SPEED\<rparr> else s)
      in (if rotatingRight s1 then s1\<lparr>angle := angle s1 + SHIP_ROTATION_SPEED\<rparr> else s1))"

definition accelerate :: "Ship \<Rightarrow> Ship" where
  "accelerate s2 =
     (let s3 = (if thrusting s2 then
                    let thrustVector = mul (fromAngle (angle s2)) (SHIP_THRUST * speedBoost s2)
                    in s2\<lparr>ship_velocity := add (ship_velocity s2) thrustVector\<rparr>
                  else s2);
          s4 = s3\<lparr>ship_velocity := clamp (ship_velocity s3) (SHIP_MAX_SPEED * speedBoost s3)\<rparr>
      in s4\<lparr>ship_velocity := mul (ship_velocity s4) SHIP_DRAG\<rparr>)"

definition advance :: "Ship \<Rightarrow> Ship" where
  "advance s5 = wrapPosition (s5\<lparr>ship_position := add (ship_position s5) (ship_velocity s5)\<rparr>)"

definition cool_down :: "Ship \<Rightarrow> Ship" where
  "cool_down s7 =
     (let s8 = (if invulnerabilityTimer s7 > 0
                  then s7\<lparr>invulnerabilityTimer := invulnerabilityTimer s7 - 1\<rparr> else s7)
      in s8\<lparr>speedBoost := 1\<rparr>)"

definition isInvulnerable :: "Ship \<Rightarrow> bool" where
  "isInvulnerable s = (invulnerabilityTimer s > 0)"

definition getCargoCount :: "Ship \<Rightarrow> nat" where
  "getCargoCount s = length (filter (\<lambda>item. item \<noteq> None) (cargo s))"

definition isCargoFull :: "Ship \<Rightarrow> bool" where
  "isCargoFull s = (getCargoCount s \<ge> MAX_CARGO_SLOTS)"

definition isCargoEmpty :: "Ship \<Rightarrow> bool" where
  "isCargoEmpty s = (getCargoCount s = 0)"

text \<open>
  \<open>Array.prototype.findIndex\<close>: the index of the first element satisfying the
  predicate; the JavaScript result \<open>-1\<close> is \<^const>\<open>None\<close>.
\<close>

fun findIndex :: "('a \<Rightarrow> bool) \<Rightarrow> 'a list \<Rightarrow> nat option" where
  "findIndex P [] = None"
| "findIndex P (a # as) =
     (if P a then Some 0
      else case findIndex P as of None \<Rightarrow> None | Some i \<Rightarrow> Some (Suc i))"

text \<open>Methods that mutate the ship and return a value give back both.\<close>

definition addCargo :: "OrbType \<Rightarrow> Ship \<Rightarrow> bool \<times> Ship" where
  "addCargo orbType s =
     (case findIndex (\<lambda>slot. slot = None) (cargo s) of
        None \<Rightarrow> (False, s)
      | Some emptySlot \<Rightarrow> (True, s\<lparr>cargo := (cargo s)[emptySlot := Some orbType]\<rparr>))"

definition clearCargo :: "Ship \<Rightarrow> OrbType list \<times> Ship" where
  "clearCargo s =
     (let collected = map the (filter (\<lambda>item. item \<noteq> None) (cargo s))
      in (collected, s\<lparr>cargo := replicate (length (cargo s)) None\<rparr>))"

definition takeDamage :: "Ship \<Rightarrow> bool \<times> Ship" where
  "takeDamage s =
     (if isInvulnerable s \<or> isDead s then (False, s)
      else
        let s1 = s\<lparr>lives := lives s - 1\<rparr>;
            s2 = s1\<lparr>invulnerabilityTimer := INVULNERABILITY_TIME\<rparr>;
            s3 = snd (clearCargo s2)
        in if lives s3 \<le> 0 then (True, s3\<lparr>isDead := True\<rparr>) else (False, s3))"

definition applySpeedBoost :: "real \<Rightarrow> Ship \<Rightarrow> Ship" where
  "applySpeedBoost multiplier s = s\<lparr>speedBoost := max (speedBoost s) multiplier\<rparr>"

section \<open>Environment: random numbers and identity counters\<close>

text \<open>
  \<open>Math.random()\<close> and the module-level counter \<open>hazardIdCounter\<close> are the two pieces
  of global state the spawning code reads and writes. They are threaded explicitly: every
  function that draws a random number or allocates an identifier takes the environment
  and returns the updated one. The random source is an arbitrary sequence of reals; a
  draw takes the fractional part of its head, so that every draw lies in \<open>[0, 1)\<close> as
  \<open>Math.random()\<close> guarantees, and theorems hold for every such sequence.
\<close>

record Env =
  random_src :: "nat \<Rightarrow> real"
  hazardIdCounter :: nat
  orbNextId :: nat

definition Math_random :: "Env \<Rightarrow> real \<times> Env" where
  "Math_random e = (frac (random_src e 0), e\<lparr>random_src := (\<lambda>n. random_src e (Suc n))\<rparr>)"

definition nextHazardId :: "Env \<Rightarrow> nat \<times> Env" where
  "nextHazardId e = (hazardIdCounter e, e\<lparr>hazardIdCounter := hazardIdCounter e + 1\<rparr>)"

text \<open>
  A \<open>for\<close> loop over the indices \<open>is\<close> that pushes the result of each round onto an
  array.
\<close>

primrec for_push :: "nat list \<Rightarrow> (nat \<Rightarrow> Env \<Rightarrow> 'a \<times> Env) \<Rightarrow> Env \<Rightarrow> 'a list \<times> Env" where
  "for_push [] f e = ([], e)"
| "for_push (i # is) f e =
     (let (a, e1) = f i e; (as, e2) = for_push is f e1 in (a # as, e2))"

section \<open>Hazards\<close>

text \<open>
  The grid that owns a ship identifies it: a seeker's reference to its target ship is
  the owner of the grid the ship belongs to.
\<close>

datatype GridOwner = Player | Bot1 | Bot2 | Bot3

type_synonym ship_ref = GridOwner

datatype HazardType = ASTEROID | SEEKER | MINE | NUKE

text \<open>The fields of the \<open>Hazard\<close> interface, extended by each of the four classes.\<close>

record Hazard =
  hazard_id :: nat
  position :: Vec2
  velocity :: Vec2
  radius :: real
  lifetime :: int
  maxLifetime :: int
  active :: bool

record Asteroid = Hazard +
  rotation :: real
  rotationSpeed :: real
  isLarge :: bool
  shapeOffsets :: "real list"

record SeekerDrone = Hazard +
  wobblePhase :: real
  maxSpeed :: real
  targetShip :: "ship_ref option"

record Mine = Hazard +
  armingRadius :: real
  armingTime :: int
  armed :: bool
  blinkPhase :: real

record Nuke = Hazard +
  maxRadius :: real
  countdownTime :: int
  detonated :: bool
  explosionTime :: int
  maxExplosionTime :: int
  safeZoneRadius :: real

datatype hazard =
  IsAsteroid Asteroid
| IsSeeker SeekerDrone
| IsMine Mine
| IsNuke Nuke

fun hazard_type :: "hazard \<Rightarrow> HazardType" where
  "hazard_type (IsAsteroid a) = ASTEROID"
| "hazard_type (IsSeeker d) = SEEKER"
| "hazard_type (IsMine m) = MINE"
| "hazard_type (IsNuke n) = NUKE"

text \<open>\<open>isExpired\<close> has the same body in all four classes.\<close>

definition isExpired :: "'a Hazard_scheme \<Rightarrow> bool" where
  "isExpired h = (lifetime h \<le> 0)"

subsection \<open>Asteroid\<close>

definition Asteroid_new :: "Vec2 \<Rightarrow> Vec2 \<Rightarrow> bool \<Rightarrow> Env \<Rightarrow> Asteroid \<times> Env" where
  "Asteroid_new pos vel large e =
     (let (i, e1) = nextHazardId e;
          (r1, e2) = Math_random e1;
          (r2, e3) = Math_random e2;
          (offsets, e4) =
             for_push [0..<8]
               (\<lambda>i e. let (r, e') = Math_random e in (8 / 10 + r * (4 / 10), e')) e3
      in (\<lparr>hazard_id = i, position = pos, velocity = vel,
            radius = (if large then 35 else 20),
            lifetime = 15 * 60, maxLifetime = 15 * 60, active = True,
            rotation = r1 * pi * 2, rotationSpeed = (r2 - 5 / 10) * (1 / 10),
            isLarge = large, shapeOffsets = offsets\<rparr>, e4))"

definition Asteroid_update :: "Asteroid \<Rightarrow> Asteroid" where
  "Asteroid_update a =
     (if \<not> active a then a
      else
        let a1 = a\<lparr>position := add (position a) (velocity a)\<rparr>;
            a2 = a1\<lparr>rotation := rotation a1 + rotationSpeed a1\<rparr>;
            a3 = (if vec_x (position a2) < radius a2 then
                    a2\<lparr>position := (position a2)\<lparr>vec_x := radius a2\<rparr>,
                       velocity := (velocity a2)\<lparr>vec_x := \<bar>vec_x (velocity a2)\<bar>\<rparr>\<rparr>
                  else if vec_x (position a2) > WORLD_WIDTH - radius a2 then
                    a2\<lparr>position := (position a2)\<lparr>vec_x := WORLD_WIDTH - radius a2\<rparr>,
                       velocity := (velocity a2)\<lparr>vec_x := - \<bar>vec_x (velocity a2)\<bar>\<rparr>\<rparr>
                  else a2);
            a4 = (if vec_y (position a3) < radius a3 then
                    a3\<lparr>position := (position a3)\<lparr>vec_y := radius a3\<rparr>,
                       velocity := (velocity a3)\<lparr>vec_y := \<bar>vec_y (velocity a3)\<bar>\<rparr>\<rparr>
                  else if vec_y (position a3) > WORLD_HEIGHT - radius a3 then
                    a3\<lparr>position := (position a3)\<lparr>vec_y := WORLD_HEIGHT - radius a3\<rparr>,
                       velocity := (velocity a3)\<lparr>vec_y := - \<bar>vec_y (velocity a3)\<bar>\<rparr>\<rparr>
                  else a3)
        in a4\<lparr>lifetime := lifetime a4 - 1\<rparr>)"

definition Asteroid_collidesWith :: "Asteroid \<Rightarrow> Vec2 \<Rightarrow> real \<Rightarrow> bool" where
  "Asteroid_collidesWith a shipPosition shipRadius =
     (if \<not> active a then False
      else let dist = length_vec (sub (position a) shipPosition)
           in dist \<le> radius a + shipRadius)"

subsection \<open>Seeker drone\<close>

definition SeekerDrone_new :: "Vec2 \<Rightarrow> Env \<Rightarrow> SeekerDrone \<times> Env" where
  "SeekerDrone_new pos e =
     (let (i, e1) = nextHazardId e;
          (r, e2) = Math_random e1
      in (\<lparr>hazard_id = i, position = pos, velocity = Vec2_zero, radius = 12,
            lifetime = 20 * 60, maxLifetime = 20 * 60, active = True,
            wobblePhase = r * pi * 2, maxSpeed = SHIP_MAX_SPEED * (6 / 10),
            targetShip = None\<rparr>, e2))"

definition setTarget :: "ship_ref \<Rightarrow> SeekerDrone \<Rightarrow> SeekerDrone" where
  "setTarget ship d = d\<lparr>targetShip := Some ship\<rparr>"

text \<open>
  The drone reads the position of its target through the reference; \<open>ships\<close> gives the
  current state of every ship.
\<close>

definition SeekerDrone_update :: "(ship_ref \<Rightarrow> Ship) \<Rightarrow> SeekerDrone \<Rightarrow> SeekerDrone" where
  "SeekerDrone_update ships d =
     (if \<not> active d then d
      else case targetShip d of
        None \<Rightarrow> d
      | Some r \<Rightarrow>
         (let ship = ships r;
              d1 = d\<lparr>wobblePhase := wobblePhase d + 1 / 10\<rparr>;
              toPlayer = sub (ship_position ship) (position d1);
              distance = length_vec toPlayer;
              d2 = (if distance > 0 then
                      let direction = normalize_vec toPlayer;
                          wobbleAmount = 3 / 10;
                          wobbleX = cos (wobblePhase d1) * wobbleAmount;
                          wobbleY = sin (wobblePhase d1 * (13 / 10)) * wobbleAmount;
                          direction' = normalize_vec
                             (Vec2_new (vec_x direction + wobbleX) (vec_y direction + wobbleY))
                      in d1\<lparr>velocity := mul direction' (maxSpeed d1)\<rparr>
                    else d1);
              d3 = d2\<lparr>position := add (position d2) (velocity d2)\<rparr>;
              d4 = (if vec_x (position d3) < 0
                    then d3\<lparr>position := (position d3)\<lparr>vec_x := vec_x (position d3) + WORLD_WIDTH\<rparr>\<rparr>
                    else d3);
              d5 = (if vec_x (position d4) > WORLD_WIDTH
                    then d4\<lparr>position := (position d4)\<lparr>vec_x := vec_x (position d4) - WORLD_WIDTH\<rparr>\<rparr>
                    else d4);
              d6 = (if vec_y (position d5) < 0
                    then d5\<lparr>position := (position d5)\<lparr>vec_y := vec_y (position d5) + WORLD_HEIGHT\<rparr>\<rparr>
                    else d5);
              d7 = (if vec_y (position d6) > WORLD_HEIGHT
                    then d6\<lparr>position := (position d6)\<lparr>vec_y := vec_y (position d6) - WORLD_HEIGHT\<rparr>\<rparr>
                    else d6)
          in d7\<lparr>lifetime := lifetime d7 - 1\<rparr>))"

definition SeekerDrone_collidesWith :: "SeekerDrone \<Rightarrow> Vec2 \<Rightarrow> real \<Rightarrow> bool" where
  "SeekerDrone_collidesWith d shipPosition shipRadius =
     (if \<not> active d then False
      else let dist = length_vec (sub (position d) shipPosition)
           in dist \<le> radius d + shipRadius)"

subsection \<open>Mine\<close>

definition Mine_new :: "Vec2 \<Rightarrow> Env \<Rightarrow> Mine \<times> Env" where
  "Mine_new pos e =
     (let (i, e1) = nextHazardId e
      in (\<lparr>hazard_id = i, position = pos, velocity = Vec2_zero, radius = 10,
            lifetime = 30 * 60, maxLifetime = 30 * 60, active = True,
            armingRadius = 60, armingTime = 2 * 60, armed = False, blinkPhase = 0\<rparr>, e1))"

definition Mine_update :: "Mine \<Rightarrow> Mine" where
  "Mine_update m =
     (if \<not> active m then m
      else
        let m1 = (if \<not> armed m then
                    let m' = m\<lparr>armingTime := armingTime m - 1\<rparr>
                    in (if armingTime m' \<le> 0 then m'\<lparr>armed := True\<rparr> else m')
                  else m\<lparr>blinkPhase := blinkPhase m + 2 / 10\<rparr>)
        in m1\<lparr>lifetime := lifetime m1 - 1\<rparr>)"

definition Mine_collidesWith :: "Mine \<Rightarrow> Vec2 \<Rightarrow> real \<Rightarrow> bool" where
  "Mine_collidesWith m shipPosition shipRadius =
     (if \<not> active m then False
      else if armed m then
        (let dist = length_vec (sub (position m) shipPosition)
         in dist \<le> armingRadius m + shipRadius)
      else
        (let dist = length_vec (sub (position m) shipPosition)
         in dist \<le> radius m + shipRadius))"

subsection \<open>Nuke\<close>

definition Nuke_new :: "Vec2 \<Rightarrow> Env \<Rightarrow> Nuke \<times> Env" where
  "Nuke_new pos e =
     (let (i, e1) = nextHazardId e
      in (\<lparr>hazard_id = i, position = pos, velocity = Vec2_zero, radius = 0,
            lifetime = 5 * 60 + 2 * 60, maxLifetime = 5 * 60 + 2 * 60, active = True,
            maxRadius = 375, countdownTime = 5 * 60, detonated = False,
            explosionTime = 0, maxExplosionTime = 2 * 60, safeZoneRadius = 50\<rparr>, e1))"

definition detonate :: "Nuke \<Rightarrow> Nuke" where
  "detonate n = n\<lparr>detonated := True, explosionTime := 0\<rparr>"

definition Nuke_update :: "Nuke \<Rightarrow> Nuke" where
  "Nuke_update n =
     (if \<not> active n then n
      else
        let n1 = (if \<not> detonated n then
                    let n' = n\<lparr>countdownTime := countdownTime n - 1\<rparr>
                    in (if countdownTime n' \<le> 0 then detonate n' else n')
                  else
                    let n' = n\<lparr>explosionTime := explosionTime n + 1\<rparr>;
                        progress = real_of_int (explosionTime n') / real_of_int (maxExplosionTime n');
                        n'' = n'\<lparr>radius := maxRadius n' * min (progress * (15 / 10)) 1\<rparr>
                    in (if explosionTime n'' \<ge> maxExplosionTime n'' then n''\<lparr>active := False\<rparr>
                        else n''))
        in n1\<lparr>lifetime := lifetime n1 - 1\<rparr>)"

definition corners :: "Vec2 list" where
  "corners = [Vec2_new 0 0, Vec2_new WORLD_WIDTH 0, Vec2_new 0 WORLD_HEIGHT,
              Vec2_new WORLD_WIDTH WORLD_HEIGHT]"

text \<open>
  The loop over the corners returns false at the first corner nearer than 80; it is the
  search for such a corner.
\<close>

definition Nuke_collidesWith :: "Nuke \<Rightarrow> Vec2 \<Rightarrow> real \<Rightarrow> bool" where
  "Nuke_collidesWith n shipPosition shipRadius =
     (if \<not> active n \<or> \<not> detonated n then False
      else
        let distFromCenter = length_vec (sub shipPosition (position n))
        in if distFromCenter \<le> safeZoneRadius n then False
           else if list_ex (\<lambda>corner. length_vec (sub shipPosition corner) < 80) corners
           then False
           else let dist = length_vec (sub (position n) shipPosition)
                in dist \<le> radius n + shipRadius)"

subsection \<open>Speed boost zone\<close>

record SpeedBoostZone =
  zone_id :: nat
  zone_position :: Vec2
  zone_radius :: real
  zone_lifetime :: int
  zone_maxLifetime :: int
  zone_active :: bool
  boostMultiplier :: real

definition SpeedBoostZone_new :: "Vec2 \<Rightarrow> bool \<Rightarrow> Env \<Rightarrow> SpeedBoostZone \<times> Env" where
  "SpeedBoostZone_new pos isEnhanced e =
     (let (i, e1) = nextHazardId e;
          z = \<lparr>zone_id = i, zone_position = pos, zone_radius = 100,
               zone_lifetime = 10 * 60, zone_maxLifetime = 10 * 60, zone_active = True,
               boostMultiplier = 15 / 10\<rparr>
      in ((if isEnhanced
           then z\<lparr>zone_radius := 150, boostMultiplier := 2,
                  zone_lifetime := 15 * 60, zone_maxLifetime := 15 * 60\<rparr>
           else z), e1))"

definition SpeedBoostZone_update :: "SpeedBoostZone \<Rightarrow> SpeedBoostZone" where
  "SpeedBoostZone_update z =
     (let z1 = z\<lparr>zone_lifetime := zone_lifetime z - 1\<rparr>
      in if zone_lifetime z1 \<le> 0 then z1\<lparr>zone_active := False\<rparr> else z1)"

definition contains :: "SpeedBoostZone \<Rightarrow> Vec2 \<Rightarrow> bool" where
  "contains z pos =
     (if \<not> zone_active z then False
      else length_vec (sub (zone_position z) pos) \<le> zone_radius z)"

definition SpeedBoostZone_isExpired :: "SpeedBoostZone \<Rightarrow> bool" where
  "SpeedBoostZone_isExpired z = (zone_lifetime z \<le> 0)"

subsection \<open>Dispatch over the hazard classes\<close>

fun hazard_update :: "(ship_ref \<Rightarrow> Ship) \<Rightarrow> hazard \<Rightarrow> hazard" where
  "hazard_update ships (IsAsteroid a) = IsAsteroid (Asteroid_update a)"
| "hazard_update ships (IsSeeker d) = IsSeeker (SeekerDrone_update ships d)"
| "hazard_update ships (IsMine m) = IsMine (Mine_update m)"
| "hazard_update ships (IsNuke n) = IsNuke (Nuke_update n)"

fun hazard_collidesWith :: "hazard \<Rightarrow> Vec2 \<Rightarrow> real \<Rightarrow> bool" where
  "hazard_collidesWith (IsAsteroid a) p r = Asteroid_collidesWith a p r"
| "hazard_collidesWith (IsSeeker d) p r = SeekerDrone_collidesWith d p r"
| "hazard_collidesWith (IsMine m) p r = Mine_collidesWith m p r"
| "hazard_collidesWith (IsNuke n) p r = Nuke_collidesWith n p r"

fun hazard_isExpired :: "hazard \<Rightarrow> bool" where
  "hazard_isExpired (IsAsteroid a) = isExpired a"
| "hazard_isExpired (IsSeeker d) = isExpired d"
| "hazard_isExpired (IsMine m) = isExpired m"
| "hazard_isExpired (IsNuke n) = isExpired n"

fun hazard_active :: "hazard \<Rightarrow> bool" where
  "hazard_active (IsAsteroid a) = active a"
| "hazard_active (IsSeeker d) = active d"
| "hazard_active (IsMine m) = active m"
| "hazard_active (IsNuke n) = active n"

fun hazard_position :: "hazard \<Rightarrow> Vec2" where
  "hazard_position (IsAsteroid a) = position a"
| "hazard_position (IsSeeker d) = position d"
| "hazard_position (IsMine m) = position m"
| "hazard_position (IsNuke n) = position n"

section \<open>Attack translation table\<close>

datatype AttackTier = TIER_1 | TIER_1_5 | TIER_2 | TIER_3 | TIER_4

text \<open>The numeric value of each member of the enum, used where tiers are compared.\<close>

fun tier_value :: "AttackTier \<Rightarrow> real" where
  "tier_value TIER_1 = 1"
| "tier_value TIER_1_5 = 15 / 10"
| "tier_value TIER_2 = 2"
| "tier_value TIER_3 = 3"
| "tier_value TIER_4 = 4"

record AttackResult =
  hazards :: "hazard list"
  boostZones :: "SpeedBoostZone list"
  tier :: AttackTier
  description :: string

subsection \<open>Spawning helpers\<close>

text \<open>
  A \<open>switch\<close> on \<open>Math.floor(Math.random() * 4)\<close> with the cases 0 to 3 and no default:
  in \<open>getRandomEdgePosition\<close> the coordinates keep their initial value 0 when no case
  matches. In \<open>spawnAsteroidWall\<close> the last alternative stands for case 3, the only value
  left (\<open>spawnEdge_range\<close> below).
\<close>

definition getRandomEdgePosition :: "Vec2 \<Rightarrow> real \<Rightarrow> Env \<Rightarrow> Vec2 \<times> Env" where
  "getRandomEdgePosition center minDistance e =
     (let (r, e1) = Math_random e;
          edge = \<lfloor>r * 4\<rfloor>
      in if edge = 0 then
           (let (r', e2) = Math_random e1 in (Vec2_new (r' * WORLD_WIDTH) 30, e2))
         else if edge = 1 then
           (let (r', e2) = Math_random e1 in (Vec2_new (WORLD_WIDTH - 30) (r' * WORLD_HEIGHT), e2))
         else if edge = 2 then
           (let (r', e2) = Math_random e1 in (Vec2_new (r' * WORLD_WIDTH) (WORLD_HEIGHT - 30), e2))
         else if edge = 3 then
           (let (r', e2) = Math_random e1 in (Vec2_new 30 (r' * WORLD_HEIGHT), e2))
         else (Vec2_new 0 0, e1))"

definition getRandomPosition :: "Vec2 \<Rightarrow> real \<Rightarrow> Env \<Rightarrow> Vec2 \<times> Env" where
  "getRandomPosition center minDistance e =
     (let (r1, e1) = Math_random e;
          angle = r1 * pi * 2;
          (r2, e2) = Math_random e1;
          distance = minDistance + r2 * 200
      in (Vec2_new (vec_x center + cos angle * distance) (vec_y center + sin angle * distance), e2))"

definition spawnAsteroid :: "Vec2 \<Rightarrow> bool \<Rightarrow> Env \<Rightarrow> Asteroid \<times> Env" where
  "spawnAsteroid wormholePosition large e =
     (let (spawnPos, e1) = getRandomEdgePosition wormholePosition 200 e;
          (r1, e2) = Math_random e1;
          angle = r1 * pi * 2;
          (r2, e3) = Math_random e2;
          speed = 1 + r2 * 2;
          vel = mul (fromAngle angle) speed
      in Asteroid_new spawnPos vel large e3)"

definition spawnAsteroidWall :: "Vec2 \<Rightarrow> Env \<Rightarrow> Asteroid list \<times> Env" where
  "spawnAsteroidWall wormholePosition e =
     (let (r, e1) = Math_random e;
          spawnEdge = \<lfloor>r * 4\<rfloor>;
          count = 8;
          (r', e2) = Math_random e1;
          (startX, startY, vel) =
            (if spawnEdge = 0 then
               (WORLD_WIDTH / 2 - 200, 50, Vec2_new 0 (2 + r'))
             else if spawnEdge = 1 then
               (WORLD_WIDTH - 50, WORLD_HEIGHT / 2 - 200, Vec2_new (- (2 + r')) 0)
             else if spawnEdge = 2 then
               (WORLD_WIDTH / 2 - 200, WORLD_HEIGHT - 50, Vec2_new 0 (- (2 + r')))
             else
               (50, WORLD_HEIGHT / 2 - 200, Vec2_new (2 + r') 0));
          spacing = (if spawnEdge mod 2 = 0 then 60 else 60)
      in for_push [0..<count]
           (\<lambda>i e. let x' = (if spawnEdge mod 2 = 0 then startX + real i * spacing else startX);
                       y' = (if spawnEdge mod 2 = 1 then startY + real i * spacing else startY)
                   in Asteroid_new (Vec2_new x' y') (clone vel) (i mod 3 = 0) e)
           e2)"

definition spawnSeeker :: "ship_ref \<Rightarrow> Vec2 \<Rightarrow> Env \<Rightarrow> SeekerDrone \<times> Env" where
  "spawnSeeker ship wormholePosition e =
     (let (spawnPos, e1) = getRandomPosition wormholePosition 150 e;
          (seeker, e2) = SeekerDrone_new spawnPos e1
      in (setTarget ship seeker, e2))"

definition spawnMine :: "Vec2 \<Rightarrow> Env \<Rightarrow> Mine \<times> Env" where
  "spawnMine wormholePosition e =
     (let (spawnPos, e1) = getRandomPosition wormholePosition 250 e
      in Mine_new spawnPos e1)"

definition spawnNuke :: "Vec2 \<Rightarrow> Env \<Rightarrow> Nuke \<times> Env" where
  "spawnNuke wormholePosition e = Nuke_new wormholePosition e"

subsection \<open>Attacks by tier\<close>

text \<open>
  Each function returns the attack together with the environment after its spawns. The
  \<open>default\<close> branch of each \<open>switch\<close> (the type \<open>GOLD\<close>) spawns nothing and leaves the
  description empty.
\<close>

definition spawnTier1Attack :: "OrbType \<Rightarrow> ship_ref \<Rightarrow> Vec2 \<Rightarrow> Env \<Rightarrow> AttackResult \<times> Env" where
  "spawnTier1Attack type ship wormholePosition e =
     (case type of
        RED \<Rightarrow>
          (let (hs, e1) = for_push [0..<3]
                 (\<lambda>i e. apfst IsAsteroid (spawnAsteroid wormholePosition False e)) e
           in (\<lparr>hazards = hs, boostZones = [], tier = TIER_1,
                 description = ''3 Asteroids spawned!''\<rparr>, e1))
      | BLUE \<Rightarrow>
          (let (d, e1) = spawnSeeker ship wormholePosition e
           in (\<lparr>hazards = [IsSeeker d], boostZones = [], tier = TIER_1,
                 description = ''Seeker Drone launched!''\<rparr>, e1))
      | GREEN \<Rightarrow>
          (let (z, e1) = SpeedBoostZone_new wormholePosition False e
           in (\<lparr>hazards = [], boostZones = [z], tier = TIER_1,
                 description = ''Speed Boost Zone created!''\<rparr>, e1))
      | GOLD \<Rightarrow>
          (\<lparr>hazards = [], boostZones = [], tier = TIER_1, description = ''''\<rparr>, e))"

definition spawnEnhancedAttack :: "OrbType \<Rightarrow> ship_ref \<Rightarrow> Vec2 \<Rightarrow> Env \<Rightarrow> AttackResult \<times> Env" where
  "spawnEnhancedAttack type ship wormholePosition e =
     (case type of
        RED \<Rightarrow>
          (let (hs1, e1) = for_push [0..<3]
                 (\<lambda>i e. apfst IsAsteroid (spawnAsteroid wormholePosition False e)) e;
               (hs2, e2) = for_push [0..<2]
                 (\<lambda>i e. apfst IsAsteroid (spawnAsteroid wormholePosition True e)) e1
           in (\<lparr>hazards = hs1 @ hs2, boostZones = [], tier = TIER_1_5,
                 description = ''Enhanced Asteroid Swarm!''\<rparr>, e2))
      | BLUE \<Rightarrow>
          (let (hs, e1) = for_push [0..<2]
                 (\<lambda>i e. apfst IsSeeker (spawnSeeker ship wormholePosition e)) e
           in (\<lparr>hazards = hs, boostZones = [], tier = TIER_1_5,
                 description = ''Twin Seekers launched!''\<rparr>, e1))
      | GREEN \<Rightarrow>
          (let (z, e1) = SpeedBoostZone_new wormholePosition True e
           in (\<lparr>hazards = [], boostZones = [z], tier = TIER_1_5,
                 description = ''Enhanced Speed Zone!''\<rparr>, e1))
      | GOLD \<Rightarrow>
          (\<lparr>hazards = [], boostZones = [], tier = TIER_1_5, description = ''''\<rparr>, e))"

definition spawnTier2Attack :: "OrbType \<Rightarrow> ship_ref \<Rightarrow> Vec2 \<Rightarrow> Env \<Rightarrow> AttackResult \<times> Env" where
  "spawnTier2Attack type ship wormholePosition e =
     (case type of
        RED \<Rightarrow>
          (let (wall, e1) = spawnAsteroidWall wormholePosition e
           in (\<lparr>hazards = map IsAsteroid wall, boostZones = [], tier = TIER_2,
                 description = ''ASTEROID WALL!''\<rparr>, e1))
      | BLUE \<Rightarrow>
          (let (hs, e1) = for_push [0..<3]
                 (\<lambda>i e. apfst IsSeeker (spawnSeeker ship wormholePosition e)) e
           in (\<lparr>hazards = hs, boostZones = [], tier = TIER_2,
                 description = ''Seeker Swarm!''\<rparr>, e1))
      | GREEN \<Rightarrow>
          (let (hs, e1) = for_push [0..<8]
                 (\<lambda>i e. apfst IsMine (spawnMine wormholePosition e)) e
           in (\<lparr>hazards = hs, boostZones = [], tier = TIER_2,
                 description = ''MINE FIELD deployed!''\<rparr>, e1))
      | GOLD \<Rightarrow>
          (\<lparr>hazards = [], boostZones = [], tier = TIER_2, description = ''''\<rparr>, e))"

definition spawnChaosStorm :: "ship_ref \<Rightarrow> Vec2 \<Rightarrow> Env \<Rightarrow> AttackResult \<times> Env" where
  "spawnChaosStorm ship wormholePosition e =
     (let (a1, e1) = spawnAsteroid wormholePosition False e;
          (a2, e2) = spawnAsteroid wormholePosition True e1;
          (d, e3) = spawnSeeker ship wormholePosition e2;
          (m1, e4) = spawnMine wormholePosition e3;
          (m2, e5) = spawnMine wormholePosition e4
      in (\<lparr>hazards = [IsAsteroid a1, IsAsteroid a2, IsSeeker d, IsMine m1, IsMine m2],
            boostZones = [], tier = TIER_2, description = ''CHAOS STORM!''\<rparr>, e5))"

definition spawnMegaAttack :: "OrbType \<Rightarrow> ship_ref \<Rightarrow> Vec2 \<Rightarrow> Env \<Rightarrow> AttackResult \<times> Env" where
  "spawnMegaAttack type ship wormholePosition e =
     (case type of
        RED \<Rightarrow>
          (let (hs1, e1) = for_push [0..<8]
                 (\<lambda>i e. apfst IsAsteroid (spawnAsteroid wormholePosition False e)) e;
               (hs2, e2) = for_push [0..<4]
                 (\<lambda>i e. apfst IsAsteroid (spawnAsteroid wormholePosition True e)) e1
           in (\<lparr>hazards = hs1 @ hs2, boostZones = [], tier = TIER_3,
                 description = ''MEGA ASTEROID BARRAGE!''\<rparr>, e2))
      | BLUE \<Rightarrow>
          (let (hs, e1) = for_push [0..<5]
                 (\<lambda>i e. apfst IsSeeker (spawnSeeker ship wormholePosition e)) e
           in (\<lparr>hazards = hs, boostZones = [], tier = TIER_3,
                 description = ''MEGA SEEKER SWARM!''\<rparr>, e1))
      | GREEN \<Rightarrow>
          (let (hs, e1) = for_push [0..<12]
                 (\<lambda>i e. apfst IsMine (spawnMine wormholePosition e)) e;
               (z, e2) = SpeedBoostZone_new wormholePosition True e1
           in (\<lparr>hazards = hs, boostZones = [z], tier = TIER_3,
                 description = ''MEGA DEFENSE GRID!''\<rparr>, e2))
      | GOLD \<Rightarrow>
          (\<lparr>hazards = [], boostZones = [], tier = TIER_3, description = ''''\<rparr>, e))"

subsection \<open>The priority ladder\<close>

text \<open>
  \<open>countOrbs\<close> is the counting loop: it starts from the record with every count 0 and
  increments the count of each orb of the banked cargo \<open>orbs\<close> in turn. Each \<open>for\<close> loop over
  \<open>[RED, BLUE, GREEN]\<close> that returns at the first type reaching a threshold is the
  search for the first such type.
\<close>

definition countOrbs :: "OrbType list \<Rightarrow> OrbType \<Rightarrow> nat" where
  "countOrbs orbs = foldl (\<lambda>counts orb. counts(orb := counts orb + 1)) (\<lambda>_. 0) orbs"

definition translateCargoToAttack ::
    "OrbType list \<Rightarrow> ship_ref \<Rightarrow> Vec2 \<Rightarrow> Env \<Rightarrow> AttackResult \<times> Env" where
  "translateCargoToAttack orbs ship wormholePosition e =
     (let counts = countOrbs orbs in
      if counts GOLD \<ge> 8 then
        (let (n, e1) = spawnNuke wormholePosition e
         in (\<lparr>hazards = [IsNuke n], boostZones = [], tier = TIER_4,
               description = ''NUKE DETONATED!''\<rparr>, e1))
      else case find (\<lambda>type. counts type \<ge> 4) [RED, BLUE, GREEN] of
        Some type \<Rightarrow> spawnMegaAttack type ship wormholePosition e
      | None \<Rightarrow>
      if counts RED \<ge> 1 \<and> counts BLUE \<ge> 1 \<and> counts GREEN \<ge> 1 then
        spawnChaosStorm ship wormholePosition e
      else case find (\<lambda>type. counts type \<ge> 3) [RED, BLUE, GREEN] of
        Some type \<Rightarrow> spawnTier2Attack type ship wormholePosition e
      | None \<Rightarrow>
      (case find (\<lambda>type. counts type \<ge> 2) [RED, BLUE, GREEN] of
        Some type \<Rightarrow> spawnEnhancedAttack type ship wormholePosition e
      | None \<Rightarrow>
      if counts RED \<ge> 1 then spawnTier1Attack RED ship wormholePosition e
      else if counts BLUE \<ge> 1 then spawnTier1Attack BLUE ship wormholePosition e
      else if counts GREEN \<ge> 1 then spawnTier1Attack GREEN ship wormholePosition e
      else (\<lparr>hazards = [], boostZones = [], tier = TIER_1,
              description = ''Nothing happened...''\<rparr>, e)))"

section \<open>Wormhole\<close>

record Wormhole =
  wh_position :: Vec2
  wh_rotation :: real
  pulsePhase :: real
  pulseSpeed :: real

definition Wormhole_new :: Wormhole where
  "Wormhole_new =
     \<lparr>wh_position = Vec2_new (WORLD_WIDTH / 2) (WORLD_HEIGHT / 2),
      wh_rotation = 0, pulsePhase = 0, pulseSpeed = 5 / 100\<rparr>"

definition Wormhole_update :: "Wormhole \<Rightarrow> Wormhole" where
  "Wormhole_update w =
     (let w1 = w\<lparr>wh_rotation := wh_rotation w + WORMHOLE_ROTATION_SPEED\<rparr>
      in w1\<lparr>pulsePhase := pulsePhase w1 + pulseSpeed w1\<rparr>)"

definition isInBankingZone :: "Wormhole \<Rightarrow> Vec2 \<Rightarrow> bool" where
  "isInBankingZone w pos =
     (let dist = length_vec (sub pos (wh_position w)) in dist \<le> WORMHOLE_BANKING_RADIUS)"

definition isInWormhole :: "Wormhole \<Rightarrow> Vec2 \<Rightarrow> bool" where
  "isInWormhole w pos =
     (let dist = length_vec (sub pos (wh_position w)) in dist \<le> WORMHOLE_RADIUS)"

text \<open>
  A wormhole object may be shared by reference between the orchestrator and every grid,
  so wormholes live in a store and a grid holds a reference. A reference handed out by
  \<open>alloc_wormhole\<close> always has an object; the accessors leave the store alone (and
  answer false) for a reference without one.
\<close>

type_synonym wormhole_ref = nat

record Heap =
  cells :: "wormhole_ref \<Rightarrow> Wormhole option"
  nextRef :: wormhole_ref

definition empty_heap :: Heap where
  "empty_heap = \<lparr>cells = (\<lambda>_. None), nextRef = 0\<rparr>"

definition alloc_wormhole :: "Wormhole \<Rightarrow> Heap \<Rightarrow> wormhole_ref \<times> Heap" where
  "alloc_wormhole w h =
     (nextRef h, h\<lparr>cells := (cells h)(nextRef h := Some w), nextRef := nextRef h + 1\<rparr>)"

definition wormhole_update_at :: "wormhole_ref \<Rightarrow> Heap \<Rightarrow> Heap" where
  "wormhole_update_at r h =
     (case cells h r of
        None \<Rightarrow> h
      | Some w \<Rightarrow> h\<lparr>cells := (cells h)(r := Some (Wormhole_update w))\<rparr>)"

definition isInBankingZone_at :: "Heap \<Rightarrow> wormhole_ref \<Rightarrow> Vec2 \<Rightarrow> bool" where
  "isInBankingZone_at h r pos =
     (case cells h r of None \<Rightarrow> False | Some w \<Rightarrow> isInBankingZone w pos)"

definition wormhole_position_at :: "Heap \<Rightarrow> wormhole_ref \<Rightarrow> Vec2" where
  "wormhole_position_at h r =
     (case cells h r of None \<Rightarrow> Vec2_new 0 0 | Some w \<Rightarrow> wh_position w)"

section \<open>Orb\<close>

definition ORB_RADIUS :: real where "ORB_RADIUS = 12"
definition ORB_BOB_SPEED :: real where "ORB_BOB_SPEED = 8 / 100"

definition ORB_SPAWN_WEIGHTS :: "(OrbType \<times> real) list" where
  "ORB_SPAWN_WEIGHTS = [(RED, 40 / 100), (BLUE, 35 / 100), (GREEN, 20 / 100), (GOLD, 5 / 100)]"

record Orb =
  orb_position :: Vec2
  orb_type :: OrbType
  bobPhase :: real
  orb_id :: nat

definition Orb_new :: "Vec2 \<Rightarrow> OrbType \<Rightarrow> Env \<Rightarrow> Orb \<times> Env" where
  "Orb_new pos t e =
     (let i = orbNextId e;
          e1 = e\<lparr>orbNextId := orbNextId e + 1\<rparr>;
          (r, e2) = Math_random e1
      in (\<lparr>orb_position = pos, orb_type = t, bobPhase = r * pi * 2, orb_id = i\<rparr>, e2))"

definition Orb_update :: "Orb \<Rightarrow> Orb" where
  "Orb_update orb = orb\<lparr>bobPhase := bobPhase orb + ORB_BOB_SPEED\<rparr>"

definition Orb_collidesWith :: "Orb \<Rightarrow> Vec2 \<Rightarrow> real \<Rightarrow> bool" where
  "Orb_collidesWith orb shipPosition shipRadius =
     (let dist = length_vec (sub (orb_position orb) shipPosition)
      in dist \<le> shipRadius + ORB_RADIUS)"

text \<open>The loop of \<open>getRandomType\<close> over the weights, with its running sum.\<close>

fun pickType :: "real \<Rightarrow> real \<Rightarrow> (OrbType \<times> real) list \<Rightarrow> OrbType" where
  "pickType rand cumulative [] = RED"
| "pickType rand cumulative ((t, weight) # rest) =
     (let cumulative' = cumulative + weight
      in if rand \<le> cumulative' then t else pickType rand cumulative' rest)"

definition getRandomType :: "Env \<Rightarrow> OrbType \<times> Env" where
  "getRandomType e = (let (rand, e1) = Math_random e in (pickType rand 0 ORB_SPAWN_WEIGHTS, e1))"

section \<open>Grid state\<close>

text \<open>
  The particle system is presentation only and is left out of the grid. The three
  callbacks \<open>onBankOrbs\<close>, \<open>onShipDestroyed\<close> and \<open>onKillFeed\<close> are modelled by the list
  of events a method emits, in order. The map of orbs is an association list in
  insertion order, the order in which a JavaScript \<open>Map\<close> is iterated.
\<close>

datatype GridEvent =
  BankOrbs GridOwner "OrbType list"
| ShipDestroyed GridOwner
| KillFeed string

record GridState =
  grid_owner :: GridOwner
  grid_isPlayer :: bool
  grid_ship :: Ship
  grid_wormhole :: wormhole_ref
  grid_orbs :: "(nat \<times> Orb) list"
  grid_hazards :: "hazard list"
  grid_boostZones :: "SpeedBoostZone list"
  orbSpawnTimer :: real
  nextOrbSpawnTime :: real
  bankingPulse :: real
  lastAttackResult :: "AttackResult option"
  attackMessageTimer :: int
  screenShake :: real
  gameOver :: bool
  gameOverTimer :: int
  grid_winner :: "GridOwner option"

definition PHYSICS_DT :: real where "PHYSICS_DT = 1000 / 60"
definition MAX_ORBS :: nat where "MAX_ORBS = 12"
definition MIN_SPAWN_DISTANCE :: real where "MIN_SPAWN_DISTANCE = 150"
definition MIN_EDGE_DISTANCE :: real where "MIN_EDGE_DISTANCE = 50"
definition SPAWN_INTERVAL_MIN :: real where "SPAWN_INTERVAL_MIN = 2000"
definition SPAWN_INTERVAL_MAX :: real where "SPAWN_INTERVAL_MAX = 4000"
definition ATTACK_MESSAGE_DURATION :: int where "ATTACK_MESSAGE_DURATION = 3 * 60"
definition SCREEN_SHAKE_DECAY :: real where "SCREEN_SHAKE_DECAY = 9 / 10"

text \<open>
  The constructor: \<open>this.wormhole = sharedWormhole || new Wormhole()\<close> keeps the
  reference it is given, or allocates a wormhole of its own.
\<close>

definition GridState_new ::
    "GridOwner \<Rightarrow> bool \<Rightarrow> real \<Rightarrow> real \<Rightarrow> wormhole_ref option \<Rightarrow> Heap \<Rightarrow> GridState \<times> Heap" where
  "GridState_new own isP shipStartX shipStartY sharedWormhole h =
     (let (r, h1) = (case sharedWormhole of
                       Some shared \<Rightarrow> (shared, h)
                     | None \<Rightarrow> alloc_wormhole Wormhole_new h)
      in (\<lparr>grid_owner = own, grid_isPlayer = isP,
            grid_ship = Ship_new shipStartX shipStartY,
            grid_wormhole = r, grid_orbs = [], grid_hazards = [], grid_boostZones = [],
            orbSpawnTimer = 0, nextOrbSpawnTime = 3000, bankingPulse = 0,
            lastAttackResult = None, attackMessageTimer = 0, screenShake = 0,
            gameOver = False, gameOverTimer = 0, grid_winner = None\<rparr>, h1))"

definition getDisplayName :: "GridState \<Rightarrow> string" where
  "getDisplayName g =
     (if grid_isPlayer g then ''Player''
      else case grid_owner g of
             Player \<Rightarrow> ''PLAYER'' | Bot1 \<Rightarrow> ''BOT-1'' | Bot2 \<Rightarrow> ''BOT-2'' | Bot3 \<Rightarrow> ''BOT-3'')"

subsection \<open>Orb spawning\<close>

text \<open>
  \<open>orbs.set(id, orb)\<close>: a new key is appended, an existing key keeps its place.
  \<open>spawnOrb_attempts n\<close> is the \<open>while\<close> loop of \<open>spawnOrb\<close> with \<open>n\<close> attempts left.
\<close>

fun map_set :: "nat \<Rightarrow> 'v \<Rightarrow> (nat \<times> 'v) list \<Rightarrow> (nat \<times> 'v) list" where
  "map_set k v [] = [(k, v)]"
| "map_set k v ((k', v') # kvs) =
     (if k = k' then (k, v) # kvs else (k', v') # map_set k v kvs)"

definition map_delete :: "nat \<Rightarrow> (nat \<times> 'v) list \<Rightarrow> (nat \<times> 'v) list" where
  "map_delete k kvs = filter (\<lambda>kv. fst kv \<noteq> k) kvs"

primrec spawnOrb_attempts :: "nat \<Rightarrow> GridState \<Rightarrow> Env \<Rightarrow> GridState \<times> Env" where
  "spawnOrb_attempts 0 g e = (g, e)"
| "spawnOrb_attempts (Suc n) g e =
     (let (r1, e1) = Math_random e;
          x' = MIN_EDGE_DISTANCE + r1 * (WORLD_WIDTH - MIN_EDGE_DISTANCE * 2);
          (r2, e2) = Math_random e1;
          y' = MIN_EDGE_DISTANCE + r2 * (WORLD_HEIGHT - MIN_EDGE_DISTANCE * 2);
          pos = Vec2_new x' y';
          center = Vec2_new (WORLD_WIDTH / 2) (WORLD_HEIGHT / 2)
      in if length_vec (sub pos center) \<ge> MIN_SPAWN_DISTANCE
            \<and> \<not> list_ex (\<lambda>kv. length_vec (sub pos (orb_position (snd kv))) < ORB_RADIUS * 3)
                    (grid_orbs g)
         then (let (orbType, e3) = getRandomType e2;
                   (orb, e4) = Orb_new pos orbType e3
               in (g\<lparr>grid_orbs := map_set (orb_id orb) orb (grid_orbs g)\<rparr>, e4))
         else spawnOrb_attempts n g e2)"

definition spawnOrb :: "GridState \<Rightarrow> Env \<Rightarrow> GridState \<times> Env" where
  "spawnOrb g e = spawnOrb_attempts 50 g e"

definition updateOrbSpawning :: "GridState \<Rightarrow> Env \<Rightarrow> GridState \<times> Env" where
  "updateOrbSpawning g e =
     (if length (grid_orbs g) \<ge> MAX_ORBS then (g, e)
      else
        let g1 = g\<lparr>orbSpawnTimer := orbSpawnTimer g + PHYSICS_DT\<rparr>
        in if orbSpawnTimer g1 \<ge> nextOrbSpawnTime g1 then
             (let (g2, e1) = spawnOrb g1 e;
                  g3 = g2\<lparr>orbSpawnTimer := 0\<rparr>;
                  (r, e2) = Math_random e1
              in (g3\<lparr>nextOrbSpawnTime :=
                        SPAWN_INTERVAL_MIN + r * (SPAWN_INTERVAL_MAX - SPAWN_INTERVAL_MIN)\<rparr>, e2))
           else (g1, e))"

subsection \<open>Collisions\<close>

definition handleShipHit :: "hazard \<Rightarrow> GridState \<Rightarrow> GridState \<times> GridEvent list" where
  "handleShipHit hz g =
     (let g1 = g\<lparr>screenShake := 15\<rparr>;
          (died, s') = takeDamage (grid_ship g1);
          g2 = g1\<lparr>grid_ship := s'\<rparr>
      in if died then
           (let killerName = (case hazard_type hz of
                                SEEKER \<Rightarrow> ''Seeker Drone'' | ASTEROID \<Rightarrow> ''Asteroid''
                              | MINE \<Rightarrow> ''Mine'' | NUKE \<Rightarrow> ''NUKE'')
            in (g2, [KillFeed (getDisplayName g2 @ '' was destroyed by '' @ killerName),
                     ShipDestroyed (grid_owner g2)]))
         else (g2, []))"

definition collectOrb :: "GridState \<Rightarrow> nat \<times> Orb \<Rightarrow> GridState" where
  "collectOrb g kv =
     (if Orb_collidesWith (snd kv) (ship_position (grid_ship g)) SHIP_COLLISION_RADIUS then
        (let (added, s') = addCargo (orb_type (snd kv)) (grid_ship g)
         in if added then g\<lparr>grid_ship := s', grid_orbs := map_delete (fst kv) (grid_orbs g)\<rparr>
            else g\<lparr>grid_ship := s'\<rparr>)
      else g)"

definition checkCollisions :: "GridState \<Rightarrow> GridState \<times> GridEvent list" where
  "checkCollisions g =
     (let g1 = foldl collectOrb g (grid_orbs g)
      in if \<not> isInvulnerable (grid_ship g1) then
           (case find (\<lambda>hz. hazard_collidesWith hz (ship_position (grid_ship g1))
                               SHIP_COLLISION_RADIUS) (grid_hazards g1) of
              Some hz \<Rightarrow> handleShipHit hz g1
            | None \<Rightarrow> (g1, []))
         else (g1, []))"

definition checkBoostZones :: "GridState \<Rightarrow> GridState" where
  "checkBoostZones g =
     foldl (\<lambda>g zone. if contains zone (ship_position (grid_ship g))
                      then g\<lparr>grid_ship := applySpeedBoost (boostMultiplier zone) (grid_ship g)\<rparr>
                      else g)
       g (grid_boostZones g)"

subsection \<open>The grid tick\<close>

text \<open>
  \<open>GridState_update\<close> takes the store of wormholes, the environment and the ships of the
  other grids (seeker drones read their target through its reference) and returns the
  grid, the store, the environment and the events emitted. The source comments the
  wormhole update with \<open>if not shared\<close> and guards it with \<open>if (this.wormhole)\<close>: the
  test is on the reference, which the constructor always sets, so the update always
  runs.
\<close>

definition GridState_update ::
    "(ship_ref \<Rightarrow> Ship) \<Rightarrow> GridState \<Rightarrow> Heap \<Rightarrow> Env
       \<Rightarrow> GridState \<times> Heap \<times> Env \<times> GridEvent list" where
  "GridState_update others g h e =
     (if gameOver g then (g\<lparr>gameOverTimer := gameOverTimer g + 1\<rparr>, h, e, [])
      else
        let g1 = g\<lparr>grid_ship := savePreviousState (grid_ship g)\<rparr>;
            g2 = g1\<lparr>grid_ship := Ship_update (grid_ship g1)\<rparr>;
            h1 = wormhole_update_at (grid_wormhole g2) h;
            g3 = g2\<lparr>grid_orbs := map (\<lambda>kv. (fst kv, Orb_update (snd kv))) (grid_orbs g2)\<rparr>;
            ships = others(grid_owner g3 := grid_ship g3);
            g4 = g3\<lparr>grid_hazards := map (hazard_update ships) (grid_hazards g3)\<rparr>;
            g5 = g4\<lparr>grid_boostZones := map SpeedBoostZone_update (grid_boostZones g4)\<rparr>;
            (g6, e1) = updateOrbSpawning g5 e;
            (g7, events) = checkCollisions g6;
            g8 = checkBoostZones g7;
            g9 = (if attackMessageTimer g8 > 0
                  then g8\<lparr>attackMessageTimer := attackMessageTimer g8 - 1\<rparr> else g8);
            g10 = (if \<not> isDead (grid_ship g9)
                      \<and> isInBankingZone_at h1 (grid_wormhole g9) (ship_position (grid_ship g9))
                   then g9\<lparr>bankingPulse := min (bankingPulse g9 + 5 / 100) 1\<rparr>
                   else g9\<lparr>bankingPulse := max (bankingPulse g9 - 5 / 100) 0\<rparr>);
            g11 = g10\<lparr>screenShake := screenShake g10 * SCREEN_SHAKE_DECAY\<rparr>;
            g12 = (if screenShake g11 < 5 / 10 then g11\<lparr>screenShake := 0\<rparr> else g11);
            g13 = g12\<lparr>grid_hazards :=
                        filter (\<lambda>hz. \<not> hazard_isExpired hz \<and> hazard_active hz) (grid_hazards g12)\<rparr>;
            g14 = g13\<lparr>grid_boostZones :=
                        filter (\<lambda>z. \<not> SpeedBoostZone_isExpired z \<and> zone_active z)
                          (grid_boostZones g13)\<rparr>;
            g15 = (if isDead (grid_ship g14) \<and> \<not> gameOver g14
                   then g14\<lparr>gameOver := True\<rparr> else g14)
        in (g15, h1, e1, events))"

subsection \<open>Banking\<close>

text \<open>
  \<open>bankOrbs\<close> calls the orchestrator's \<open>onBankOrbs\<close> callback before it computes its own
  attack result; \<open>notify\<close> is what that call does to the environment (the orchestrator
  draws random numbers and allocates hazards of its own), and the call itself is the
  emitted \<open>BankOrbs\<close> event. The attack result kept in \<open>lastAttackResult\<close> is read again
  only for its description and tier; it holds the hazards as they were when it was
  stored.
\<close>

definition bankOrbs ::
    "(GridOwner \<Rightarrow> OrbType list \<Rightarrow> Env \<Rightarrow> Env) \<Rightarrow> GridState \<Rightarrow> Heap \<Rightarrow> Env
       \<Rightarrow> GridState \<times> Env \<times> GridEvent list" where
  "bankOrbs notify g h e =
     (let inZone = isInBankingZone_at h (grid_wormhole g) (ship_position (grid_ship g));
          isEmpty = isCargoEmpty (grid_ship g)
      in if inZone \<and> \<not> isEmpty then
           (let (bankedOrbs, s') = clearCargo (grid_ship g);
                g1 = g\<lparr>grid_ship := s'\<rparr>;
                e1 = notify (grid_owner g1) bankedOrbs e;
                (attackResult, e2) =
                   translateCargoToAttack bankedOrbs (grid_owner g1)
                     (wormhole_position_at h (grid_wormhole g1)) e1;
                g2 = g1\<lparr>lastAttackResult := Some attackResult\<rparr>;
                g3 = g2\<lparr>attackMessageTimer := ATTACK_MESSAGE_DURATION\<rparr>;
                g4 = (if tier_value (tier attackResult) \<ge> 3 then g3\<lparr>screenShake := 20\<rparr>
                      else if tier_value (tier attackResult) \<ge> 2 then g3\<lparr>screenShake := 10\<rparr>
                      else g3\<lparr>screenShake := 5\<rparr>)
            in (g4, e2, [BankOrbs (grid_owner g1) bankedOrbs]))
         else (g, e, []))"

text \<open>
  \<open>spawnAttack\<close>: the incoming seekers are retargeted at this grid's ship, the hazards
  and zones are appended, and the message is prefixed with the name of the source.
\<close>

definition spawnAttack :: "AttackResult \<Rightarrow> GridOwner \<Rightarrow> GridState \<Rightarrow> GridState" where
  "spawnAttack attackResult sourceOwner g =
     (let incoming = map (\<lambda>hz. case hz of IsSeeker d \<Rightarrow> IsSeeker (setTarget (grid_owner g) d)
                                   | _ \<Rightarrow> hz) (hazards attackResult);
          g1 = g\<lparr>grid_hazards := grid_hazards g @ incoming\<rparr>;
          g2 = g1\<lparr>grid_boostZones := grid_boostZones g1 @ boostZones attackResult\<rparr>;
          sourceName = (case sourceOwner of
                          Player \<Rightarrow> ''Player'' | Bot1 \<Rightarrow> ''BOT-1''
                        | Bot2 \<Rightarrow> ''BOT-2'' | Bot3 \<Rightarrow> ''BOT-3'');
          g3 = g2\<lparr>lastAttackResult :=
                     Some (attackResult\<lparr>hazards := incoming,
                             description := sourceName @ '': '' @ description attackResult\<rparr>)\<rparr>;
          g4 = g3\<lparr>attackMessageTimer := ATTACK_MESSAGE_DURATION\<rparr>
      in if tier_value (tier attackResult) \<ge> 3 then g4\<lparr>screenShake := 20\<rparr>
         else if tier_value (tier attackResult) \<ge> 2 then g4\<lparr>screenShake := 10\<rparr>
         else g4\<lparr>screenShake := 5\<rparr>)"

section \<open>Orchestrator: the hub and the grids in one physics step\<close>

text \<open>
  The first two statements of the body of the fixed-step loop in \<open>Game.loop\<close>:
  \<open>this.sharedWormhole.update()\<close>, then \<open>grid.update()\<close> for every grid in the order of
  the map of grids. Each grid reads the ships of the others as they stand when its turn
  comes.
\<close>

fun updateGrids ::
    "GridState list \<Rightarrow> GridState list \<Rightarrow> Heap \<Rightarrow> Env
       \<Rightarrow> GridState list \<times> Heap \<times> Env \<times> GridEvent list" where
  "updateGrids done [] h e = (done, h, e, [])"
| "updateGrids done (g # rest) h e =
     (let others = (\<lambda>r. case find (\<lambda>g'. grid_owner g' = r) (done @ rest) of
                          Some g' \<Rightarrow> grid_ship g' | None \<Rightarrow> grid_ship g);
          (g', h1, e1, ev1) = GridState_update others g h e;
          (gs, h2, e2, ev2) = updateGrids (done @ [g']) rest h1 e1
      in (gs, h2, e2, ev1 @ ev2))"

definition updateWormholeAndGrids ::
    "wormhole_ref \<Rightarrow> GridState list \<Rightarrow> Heap \<Rightarrow> Env
       \<Rightarrow> GridState list \<times> Heap \<times> Env \<times> GridEvent list" where
  "updateWormholeAndGrids sharedWormhole grids h e =
     (let h1 = wormhole_update_at sharedWormhole h
      in updateGrids [] grids h1 e)"

text \<open>
  \<open>Game.setupGrids\<close>: the player's grid and one grid per bot, every one constructed with
  the orchestrator's shared wormhole. \<open>Game_setup\<close> is the part of the constructor that
  creates the shared wormhole and the grids, with the number of bots brought into 1 to 3.
\<close>

definition botNames :: "GridOwner list" where
  "botNames = [Bot1, Bot2, Bot3]"

primrec setupBotGrids :: "nat list \<Rightarrow> wormhole_ref \<Rightarrow> Heap \<Rightarrow> GridState list \<times> Heap" where
  "setupBotGrids [] sharedWormhole h = ([], h)"
| "setupBotGrids (i # is) sharedWormhole h =
     (let (botGrid, h1) =
            GridState_new (botNames ! i) False
              (WORLD_WIDTH / 2 + (if i = 0 then 200 else if i = 1 then - 200 else 0))
              (WORLD_HEIGHT / 2 + (if i = 2 then - 200 else 0))
              (Some sharedWormhole) h;
          (botGrids, h2) = setupBotGrids is sharedWormhole h1
      in (botGrid # botGrids, h2))"

definition setupGrids :: "nat \<Rightarrow> wormhole_ref \<Rightarrow> Heap \<Rightarrow> GridState list \<times> Heap" where
  "setupGrids numBots sharedWormhole h =
     (let (playerGrid, h1) =
            GridState_new Player True (WORLD_WIDTH / 2) (WORLD_HEIGHT / 2 + 200)
              (Some sharedWormhole) h;
          (botGrids, h2) = setupBotGrids [0..<numBots] sharedWormhole h1
      in (playerGrid # botGrids, h2))"

definition Game_setup :: "nat \<Rightarrow> wormhole_ref \<times> GridState list \<times> Heap" where
  "Game_setup numBots =
     (let (sharedWormhole, h) = alloc_wormhole Wormhole_new empty_heap;
          (gs, h1) = setupGrids (min (max numBots 1) 3) sharedWormhole h
      in (sharedWormhole, gs, h1))"

section \<open>Verified properties\<close>

subsection \<open>Cargo hold\<close>

lemma findIndex_None_iff: "findIndex P xs = None \<longleftrightarrow> (\<forall>a \<in> set xs. \<not> P a)"
  by (induction xs) (auto split: option.splits)

lemma findIndex_Some:
  "findIndex P xs = Some i \<Longrightarrow> i < length xs \<and> P (xs ! i) \<and> (\<forall>j < i. \<not> P (xs ! j))"
proof (induction xs arbitrary: i)
  case Nil
  then show ?case by simp
next
  case (Cons a as)
  show ?case
  proof (cases "P a")
    case True
    with Cons.prems show ?thesis by simp
  next
    case False
    with Cons.prems obtain k where k: "findIndex P as = Some k" "i = Suc k"
      by (auto split: option.splits)
    from Cons.IH [OF k(1)] False k(2) show ?thesis
      by (auto simp: less_Suc_eq_0_disj)
  qed
qed

lemma occupied_le_length: "length (filter (\<lambda>item. item \<noteq> None) xs) \<le> length xs"
  by (rule length_filter_le)

lemma full_iff_no_empty_slot:
  "length (filter P xs) = length xs \<longleftrightarrow> (\<forall>a \<in> set xs. P a)"
proof (induction xs)
  case Nil
  show ?case by simp
next
  case (Cons a as)
  have "length (filter P as) \<noteq> Suc (length as)"
    using length_filter_le [of P as] by linarith
  with Cons show ?case by auto
qed

lemma occupied_after_fill:
  assumes "i < length xs" and "xs ! i = None"
  shows "length (filter (\<lambda>item. item \<noteq> None) (xs[i := Some t]))
           = Suc (length (filter (\<lambda>item. item \<noteq> None) xs))"
  using assms
proof (induction xs arbitrary: i)
  case Nil
  then show ?case by simp
next
  case (Cons a as)
  then show ?case by (cases i) auto
qed

lemma addCargo_no_empty_slot:
  assumes "getCargoCount s = length (cargo s)"
  shows "addCargo t s = (False, s)"
proof -
  from assms have "\<forall>a \<in> set (cargo s). a \<noteq> None"
    by (simp add: getCargoCount_def full_iff_no_empty_slot)
  then have "findIndex (\<lambda>slot. slot = None) (cargo s) = None"
    by (simp add: findIndex_None_iff)
  then show ?thesis by (simp add: addCargo_def)
qed

lemma addCargo_empty_slot:
  assumes "getCargoCount s < length (cargo s)"
  shows "\<exists>i < length (cargo s).
           cargo s ! i = None \<and> (\<forall>j < i. cargo s ! j \<noteq> None) \<and>
           addCargo t s = (True, s\<lparr>cargo := (cargo s)[i := Some t]\<rparr>)"
proof -
  from assms have "\<not> (\<forall>a \<in> set (cargo s). a \<noteq> None)"
    using full_iff_no_empty_slot [of "\<lambda>item. item \<noteq> None" "cargo s"]
    by (simp add: getCargoCount_def)
  then have "findIndex (\<lambda>slot. slot = None) (cargo s) \<noteq> None"
    by (simp add: findIndex_None_iff)
  then obtain i where i: "findIndex (\<lambda>slot. slot = None) (cargo s) = Some i"
    by blast
  from findIndex_Some [OF i] i show ?thesis
    by (auto simp: addCargo_def)
qed

text \<open>
  C8. On a ship with its 4 cargo slots, \<open>addCargo\<close> never leaves more than 4 occupied
  slots and keeps the 4 slots; when all 4 are occupied it returns false and leaves the
  ship (so the cargo array) unchanged; when a slot is empty it returns true and writes the
  orb type into the first empty slot, every other slot unchanged.
\<close>

theorem addCargo_cargo_bound:
  assumes "length (cargo s) = MAX_CARGO_SLOTS"
  shows "getCargoCount (snd (addCargo t s)) \<le> MAX_CARGO_SLOTS
       \<and> length (cargo (snd (addCargo t s))) = MAX_CARGO_SLOTS
       \<and> (getCargoCount s = MAX_CARGO_SLOTS \<longrightarrow> addCargo t s = (False, s))
       \<and> (getCargoCount s < MAX_CARGO_SLOTS \<longrightarrow>
            (\<exists>i < MAX_CARGO_SLOTS.
               cargo s ! i = None \<and> (\<forall>j < i. cargo s ! j \<noteq> None) \<and>
               addCargo t s = (True, s\<lparr>cargo := (cargo s)[i := Some t]\<rparr>)) \<and>
            getCargoCount (snd (addCargo t s)) = getCargoCount s + 1)"
proof -
  have len: "length (cargo (snd (addCargo t s))) = MAX_CARGO_SLOTS"
    using assms by (simp add: addCargo_def split: option.splits)
  have bound: "getCargoCount (snd (addCargo t s)) \<le> MAX_CARGO_SLOTS"
    using occupied_le_length [of "cargo (snd (addCargo t s))"] len
    by (simp add: getCargoCount_def)
  have full: "getCargoCount s = MAX_CARGO_SLOTS \<longrightarrow> addCargo t s = (False, s)"
    using assms addCargo_no_empty_slot [of s t] by simp
  have room: "getCargoCount s < MAX_CARGO_SLOTS \<longrightarrow>
            (\<exists>i < MAX_CARGO_SLOTS.
               cargo s ! i = None \<and> (\<forall>j < i. cargo s ! j \<noteq> None) \<and>
               addCargo t s = (True, s\<lparr>cargo := (cargo s)[i := Some t]\<rparr>)) \<and>
            getCargoCount (snd (addCargo t s)) = getCargoCount s + 1"
  proof
    assume lt: "getCargoCount s < MAX_CARGO_SLOTS"
    with assms have "getCargoCount s < length (cargo s)" by simp
    from addCargo_empty_slot [OF this, of t] obtain i where
      i: "i < length (cargo s)" "cargo s ! i = None" "\<forall>j < i. cargo s ! j \<noteq> None"
         "addCargo t s = (True, s\<lparr>cargo := (cargo s)[i := Some t]\<rparr>)"
      by blast
    have "getCargoCount (snd (addCargo t s)) = getCargoCount s + 1"
      using occupied_after_fill [OF i(1) i(2), of t] i(4)
      by (simp add: getCargoCount_def)
    with i assms show "(\<exists>i < MAX_CARGO_SLOTS.
               cargo s ! i = None \<and> (\<forall>j < i. cargo s ! j \<noteq> None) \<and>
               addCargo t s = (True, s\<lparr>cargo := (cargo s)[i := Some t]\<rparr>)) \<and>
            getCargoCount (snd (addCargo t s)) = getCargoCount s + 1"
      by auto
  qed
  from bound len full room show ?thesis by blast
qed

theorem addCargo_cargo_bound_witness:
  "addCargo GOLD ((Ship_new 600 600)\<lparr>cargo := [Some RED, Some BLUE, Some GREEN, Some RED]\<rparr>)
     = (False, (Ship_new 600 600)\<lparr>cargo := [Some RED, Some BLUE, Some GREEN, Some RED]\<rparr>)
   \<and> getCargoCount (snd (addCargo GOLD
        ((Ship_new 600 600)\<lparr>cargo := [Some RED, None, Some GREEN, None]\<rparr>))) = 3"
  using addCargo_cargo_bound
          [of "(Ship_new 600 600)\<lparr>cargo := [Some RED, Some BLUE, Some GREEN, Some RED]\<rparr>" GOLD]
        addCargo_cargo_bound
          [of "(Ship_new 600 600)\<lparr>cargo := [Some RED, None, Some GREEN, None]\<rparr>" GOLD]
  by (simp add: MAX_CARGO_SLOTS_def getCargoCount_def)

subsection \<open>Damage and invulnerability\<close>

lemma wrapPosition_keeps:
  "lives (wrapPosition s) = lives s"
  "isDead (wrapPosition s) = isDead s"
  "invulnerabilityTimer (wrapPosition s) = invulnerabilityTimer s"
  "cargo (wrapPosition s) = cargo s"
  by (simp_all add: wrapPosition_def Let_def)

lemma Ship_update_keeps:
  "lives (Ship_update s) = lives s"
  "isDead (Ship_update s) = isDead s"
  "cargo (Ship_update s) = cargo s"
  by (simp_all add: Ship_update_def Let_def wrapPosition_keeps)

lemma Ship_update_timer:
  "invulnerabilityTimer (Ship_update s) =
     (if isDead s \<or> invulnerabilityTimer s \<le> 0 then invulnerabilityTimer s
      else invulnerabilityTimer s - 1)"
  by (simp add: Ship_update_def Let_def wrapPosition_keeps)

lemma Ship_update_window:
  assumes "isDead s \<or> invulnerabilityTimer s = t" and "int n < t"
  shows "lives ((Ship_update ^^ n) s) = lives s
       \<and> (isDead ((Ship_update ^^ n) s) \<or> invulnerabilityTimer ((Ship_update ^^ n) s) = t - int n)"
  using assms
proof (induction n)
  case 0
  then show ?case by simp
next
  case (Suc n)
  then show ?case
    by (auto simp: Ship_update_keeps Ship_update_timer)
qed

lemma takeDamage_guard: "isInvulnerable s \<or> isDead s \<Longrightarrow> takeDamage s = (False, s)"
  by (simp add: takeDamage_def)

lemma takeDamage_hit:
  assumes "\<not> isInvulnerable s" and "\<not> isDead s"
  shows "takeDamage s =
           (lives s - 1 \<le> 0,
            s\<lparr>lives := lives s - 1, invulnerabilityTimer := INVULNERABILITY_TIME,
              cargo := replicate (length (cargo s)) None, isDead := (lives s - 1 \<le> 0)\<rparr>)"
  using assms by (simp add: takeDamage_def clearCargo_def Let_def)


text \<open>
  C7. \<open>takeDamage\<close> on an invulnerable or dead ship returns false and leaves the ship
  unchanged. Otherwise it takes exactly one life, empties every cargo slot, sets the
  invulnerability timer to \<open>INVULNERABILITY_TIME\<close> and returns whether the lives are
  then at most 0. A second call after fewer than \<open>INVULNERABILITY_TIME\<close> ship updates
  falls inside the window: it returns false, changes nothing, and the lives stay at one
  less than before the first call.
\<close>

theorem takeDamage_invulnerability:
  "(isInvulnerable s \<or> isDead s \<longrightarrow> takeDamage s = (False, s))
 \<and> (\<not> isInvulnerable s \<and> \<not> isDead s \<longrightarrow>
      fst (takeDamage s) = (lives (snd (takeDamage s)) \<le> 0)
    \<and> lives (snd (takeDamage s)) = lives s - 1
    \<and> cargo (snd (takeDamage s)) = replicate (length (cargo s)) None
    \<and> getCargoCount (snd (takeDamage s)) = 0
    \<and> invulnerabilityTimer (snd (takeDamage s)) = INVULNERABILITY_TIME
    \<and> (\<forall>n. int n < INVULNERABILITY_TIME \<longrightarrow>
          takeDamage ((Ship_update ^^ n) (snd (takeDamage s)))
            = (False, (Ship_update ^^ n) (snd (takeDamage s)))
        \<and> lives (snd (takeDamage ((Ship_update ^^ n) (snd (takeDamage s))))) = lives s - 1))"
proof (intro conjI impI)
  assume "isInvulnerable s \<or> isDead s"
  then show "takeDamage s = (False, s)" by (rule takeDamage_guard)
next
  assume a: "\<not> isInvulnerable s \<and> \<not> isDead s"
  note hit = takeDamage_hit [of s]
  from a hit show "fst (takeDamage s) = (lives (snd (takeDamage s)) \<le> 0)" by simp
  from a hit show "lives (snd (takeDamage s)) = lives s - 1" by simp
  from a hit show "cargo (snd (takeDamage s)) = replicate (length (cargo s)) None" by simp
  from a hit show "getCargoCount (snd (takeDamage s)) = 0" by (simp add: getCargoCount_def)
  from a hit show "invulnerabilityTimer (snd (takeDamage s)) = INVULNERABILITY_TIME" by simp
  show "\<forall>n. int n < INVULNERABILITY_TIME \<longrightarrow>
          takeDamage ((Ship_update ^^ n) (snd (takeDamage s)))
            = (False, (Ship_update ^^ n) (snd (takeDamage s)))
        \<and> lives (snd (takeDamage ((Ship_update ^^ n) (snd (takeDamage s))))) = lives s - 1"
  proof (intro allI impI)
    fix n :: nat
    assume n: "int n < INVULNERABILITY_TIME"
    let ?s1 = "snd (takeDamage s)"
    let ?s2 = "(Ship_update ^^ n) ?s1"
    from a hit have "isDead ?s1 \<or> invulnerabilityTimer ?s1 = INVULNERABILITY_TIME" by simp
    from Ship_update_window [OF this n]
    have w: "lives ?s2 = lives ?s1"
         "isDead ?s2 \<or> invulnerabilityTimer ?s2 = INVULNERABILITY_TIME - int n"
      by simp_all
    from w(2) n have "isInvulnerable ?s2 \<or> isDead ?s2"
      by (auto simp: isInvulnerable_def)
    then have g: "takeDamage ?s2 = (False, ?s2)" by (rule takeDamage_guard)
    from a hit have "lives ?s1 = lives s - 1" by simp
    with g w(1) show "takeDamage ?s2 = (False, ?s2) \<and> lives (snd (takeDamage ?s2)) = lives s - 1"
      by simp
  qed
qed

theorem takeDamage_invulnerability_witness:
  "takeDamage ((Ship_new 600 600)\<lparr>invulnerabilityTimer := 5\<rparr>)
     = (False, (Ship_new 600 600)\<lparr>invulnerabilityTimer := 5\<rparr>)
   \<and> lives (snd (takeDamage (Ship_new 600 600))) = 2
   \<and> lives (snd (takeDamage ((Ship_update ^^ 1) (snd (takeDamage (Ship_new 600 600)))))) = 2"
proof -
  have inv: "isInvulnerable ((Ship_new 600 600)\<lparr>invulnerabilityTimer := 5\<rparr>)"
    by (simp add: isInvulnerable_def)
  have fresh: "\<not> isInvulnerable (Ship_new 600 600) \<and> \<not> isDead (Ship_new 600 600)"
    by (simp add: isInvulnerable_def Ship_new_def)
  have l: "lives (Ship_new 600 600) = 3"
    by (simp add: Ship_new_def MAX_LIVES_def)
  have n: "int 1 < INVULNERABILITY_TIME"
    by (simp add: INVULNERABILITY_TIME_def)
  from takeDamage_invulnerability [of "(Ship_new 600 600)\<lparr>invulnerabilityTimer := 5\<rparr>"] inv
  have 1: "takeDamage ((Ship_new 600 600)\<lparr>invulnerabilityTimer := 5\<rparr>)
     = (False, (Ship_new 600 600)\<lparr>invulnerabilityTimer := 5\<rparr>)" by blast
  from takeDamage_invulnerability [of "Ship_new 600 600"] fresh l
  have 2: "lives (snd (takeDamage (Ship_new 600 600))) = 2" by simp
  from takeDamage_invulnerability [of "Ship_new 600 600"] fresh
  have "\<forall>n. int n < INVULNERABILITY_TIME \<longrightarrow>
          lives (snd (takeDamage ((Ship_update ^^ n) (snd (takeDamage (Ship_new 600 600))))))
            = lives (Ship_new 600 600) - 1" by blast
  with n l have 3: "lives (snd (takeDamage ((Ship_update ^^ 1) (snd (takeDamage (Ship_new 600 600)))))) = 2"
    by fastforce
  from 1 2 3 show ?thesis by blast
qed

subsection \<open>Attack ladder\<close>

lemma foldl_count:
  "foldl (\<lambda>counts orb. counts(orb := counts orb + 1)) c orbs t = c t + count_list orbs t"
  by (induction orbs arbitrary: c) auto

lemma countOrbs_count_list: "countOrbs orbs t = count_list orbs t"
  unfolding countOrbs_def foldl_count by simp

lemma count_list_le_length: "count_list xs a \<le> length xs"
  by (induction xs) auto

lemma for_push_length: "length (fst (for_push is f e)) = length is"
  by (induction "is" arbitrary: e) (auto simp: split_def Let_def)

lemma for_push_all:
  assumes "\<And>i e. P (fst (f i e))"
  shows "\<forall>a \<in> set (fst (for_push is f e)). P a"
  using assms by (induction "is" arbitrary: e) (auto simp: split_def Let_def)

lemma spawnNuke_position: "position (fst (spawnNuke wp e)) = wp"
  by (simp add: spawnNuke_def Nuke_new_def nextHazardId_def)

lemma spawnChaosStorm_result:
  "tier (fst (spawnChaosStorm ship wp e)) = TIER_2"
  "map hazard_type (hazards (fst (spawnChaosStorm ship wp e))) = [ASTEROID, ASTEROID, SEEKER, MINE, MINE]"
  "boostZones (fst (spawnChaosStorm ship wp e)) = []"
  by (simp_all add: spawnChaosStorm_def split_def Let_def)

lemma translate_nuke:
  assumes "count_list orbs GOLD \<ge> 8"
  shows "translateCargoToAttack orbs ship wp e =
           (\<lparr>hazards = [IsNuke (fst (spawnNuke wp e))], boostZones = [], tier = TIER_4,
              description = ''NUKE DETONATED!''\<rparr>, snd (spawnNuke wp e))"
  using assms by (simp add: translateCargoToAttack_def countOrbs_count_list split_def Let_def)

lemma translate_chaos:
  assumes "count_list orbs GOLD < 8"
    and "count_list orbs RED < 4" "count_list orbs BLUE < 4" "count_list orbs GREEN < 4"
    and "count_list orbs RED \<ge> 1" "count_list orbs BLUE \<ge> 1" "count_list orbs GREEN \<ge> 1"
  shows "translateCargoToAttack orbs ship wp e = spawnChaosStorm ship wp e"
  using assms by (simp add: translateCargoToAttack_def countOrbs_count_list)

lemma translate_single_blue:
  "translateCargoToAttack [BLUE] ship wp e = spawnTier1Attack BLUE ship wp e"
  by (simp add: translateCargoToAttack_def countOrbs_count_list)

lemma translate_empty:
  "translateCargoToAttack [] ship wp e =
     (\<lparr>hazards = [], boostZones = [], tier = TIER_1, description = ''Nothing happened...''\<rparr>, e)"
  by (simp add: translateCargoToAttack_def countOrbs_count_list)

text \<open>
  C1. For every ship reference, hub position and random source: a cargo holding at least
  8 \<open>GOLD\<close> gives tier 4 and exactly one hazard, a nuke whose position is the hub
  position; the cargo \<open>[RED, BLUE, GREEN]\<close> gives tier 2, the five hazards asteroid,
  asteroid, seeker, mine, mine, and no boost zone; the cargo \<open>[BLUE]\<close> gives tier 1 and
  exactly one seeker drone; the empty cargo gives tier 1, no hazard and no boost zone.
\<close>

theorem attack_ladder_listed_hands:
  "(count_list orbs GOLD \<ge> 8 \<longrightarrow>
      tier (fst (translateCargoToAttack orbs ship wp e)) = TIER_4
    \<and> (\<exists>n. hazards (fst (translateCargoToAttack orbs ship wp e)) = [IsNuke n] \<and> position n = wp))
 \<and> tier (fst (translateCargoToAttack [RED, BLUE, GREEN] ship wp e)) = TIER_2
 \<and> map hazard_type (hazards (fst (translateCargoToAttack [RED, BLUE, GREEN] ship wp e)))
      = [ASTEROID, ASTEROID, SEEKER, MINE, MINE]
 \<and> boostZones (fst (translateCargoToAttack [RED, BLUE, GREEN] ship wp e)) = []
 \<and> tier (fst (translateCargoToAttack [BLUE] ship wp e)) = TIER_1
 \<and> map hazard_type (hazards (fst (translateCargoToAttack [BLUE] ship wp e))) = [SEEKER]
 \<and> tier (fst (translateCargoToAttack [] ship wp e)) = TIER_1
 \<and> hazards (fst (translateCargoToAttack [] ship wp e)) = []
 \<and> boostZones (fst (translateCargoToAttack [] ship wp e)) = []"
proof -
  have nuke: "count_list orbs GOLD \<ge> 8 \<longrightarrow>
      tier (fst (translateCargoToAttack orbs ship wp e)) = TIER_4
    \<and> (\<exists>n. hazards (fst (translateCargoToAttack orbs ship wp e)) = [IsNuke n] \<and> position n = wp)"
    by (simp add: translate_nuke spawnNuke_position)
  have chaos: "translateCargoToAttack [RED, BLUE, GREEN] ship wp e = spawnChaosStorm ship wp e"
    by (rule translate_chaos) simp_all
  have blue: "tier (fst (translateCargoToAttack [BLUE] ship wp e)) = TIER_1"
    "map hazard_type (hazards (fst (translateCargoToAttack [BLUE] ship wp e))) = [SEEKER]"
    by (simp_all add: translate_single_blue spawnTier1Attack_def split_def Let_def)
  from nuke chaos blue show ?thesis
    by (simp add: spawnChaosStorm_result translate_empty)
qed


theorem attack_ladder_listed_hands_witness:
  "tier (fst (translateCargoToAttack [GOLD, GOLD, GOLD, GOLD, GOLD, GOLD, GOLD, GOLD] Player
       (Vec2_new 600 400) \<lparr>random_src = (\<lambda>_. 0), hazardIdCounter = 0, orbNextId = 0\<rparr>)) = TIER_4"
  using attack_ladder_listed_hands
          [of "[GOLD, GOLD, GOLD, GOLD, GOLD, GOLD, GOLD, GOLD]" Player "Vec2_new 600 400"
              "\<lparr>random_src = (\<lambda>_. 0), hazardIdCounter = 0, orbNextId = 0\<rparr>"]
  by simp

lemma translate_same_color:
  assumes "count_list orbs GOLD < 8"
    and "count_list orbs RED < 4" "count_list orbs BLUE < 4" "count_list orbs GREEN < 4"
    and "\<not> (1 \<le> count_list orbs RED \<and> 1 \<le> count_list orbs BLUE \<and> 1 \<le> count_list orbs GREEN)"
  shows "3 \<le> count_list orbs RED \<Longrightarrow>
           translateCargoToAttack orbs ship wp e = spawnTier2Attack RED ship wp e"
    and "count_list orbs RED < 3 \<Longrightarrow> 3 \<le> count_list orbs BLUE \<Longrightarrow>
           translateCargoToAttack orbs ship wp e = spawnTier2Attack BLUE ship wp e"
    and "count_list orbs RED < 3 \<Longrightarrow> count_list orbs BLUE < 3 \<Longrightarrow> 3 \<le> count_list orbs GREEN \<Longrightarrow>
           translateCargoToAttack orbs ship wp e = spawnTier2Attack GREEN ship wp e"
    and "count_list orbs RED < 3 \<Longrightarrow> count_list orbs BLUE < 3 \<Longrightarrow> count_list orbs GREEN < 3 \<Longrightarrow>
           2 \<le> count_list orbs RED \<Longrightarrow>
           translateCargoToAttack orbs ship wp e = spawnEnhancedAttack RED ship wp e"
    and "count_list orbs RED < 2 \<Longrightarrow> count_list orbs BLUE < 3 \<Longrightarrow> count_list orbs GREEN < 3 \<Longrightarrow>
           2 \<le> count_list orbs BLUE \<Longrightarrow>
           translateCargoToAttack orbs ship wp e = spawnEnhancedAttack BLUE ship wp e"
    and "count_list orbs RED < 2 \<Longrightarrow> count_list orbs BLUE < 2 \<Longrightarrow> count_list orbs GREEN < 3 \<Longrightarrow>
           2 \<le> count_list orbs GREEN \<Longrightarrow>
           translateCargoToAttack orbs ship wp e = spawnEnhancedAttack GREEN ship wp e"
  using assms
  by (auto simp add: translateCargoToAttack_def countOrbs_count_list)

lemma chaos_is_no_same_color_attack:
  "spawnChaosStorm ship wp e \<noteq> spawnTier2Attack t ship wp e'"
  "spawnChaosStorm ship wp e \<noteq> spawnEnhancedAttack t ship wp e'"
proof -
  have d: "description (fst (spawnChaosStorm ship wp e)) = ''CHAOS STORM!''"
    by (simp add: spawnChaosStorm_def split_def Let_def)
  have w: "description (fst (spawnTier2Attack t ship wp e')) \<noteq> ''CHAOS STORM!''"
    by (cases t) (simp_all add: spawnTier2Attack_def split_def Let_def)
  from d w show "spawnChaosStorm ship wp e \<noteq> spawnTier2Attack t ship wp e'"
    by auto
  have "tier (fst (spawnChaosStorm ship wp e)) = TIER_2"
    by (simp add: spawnChaosStorm_result)
  moreover have "tier (fst (spawnEnhancedAttack t ship wp e')) = TIER_1_5"
    by (cases t) (simp_all add: spawnEnhancedAttack_def split_def Let_def)
  ultimately show "spawnChaosStorm ship wp e \<noteq> spawnEnhancedAttack t ship wp e'"
    by auto
qed

text \<open>
  C2. The chaos-storm trigger is evaluated before the triggers for 3 and for 2 orbs of
  one colour. For every cargo below the nuke and mega thresholds (fewer than 8 gold,
  fewer than 4 of each colour): if it holds at least one red, one blue and one green orb,
  the result is the chaos storm (tier 2; asteroid, asteroid, seeker, mine, mine) and no
  tier-2 or enhanced single-colour attack, however many orbs of one colour it holds;
  only when one of the three colours is missing does the first colour (red, blue, green)
  with 3 orbs give its tier-2 attack, and failing that the first colour with 2 orbs its
  enhanced attack. In particular \<open>[RED, RED, RED, BLUE, GREEN]\<close> resolves to the chaos
  storm, not to the asteroid wall.
\<close>

theorem chaos_storm_before_same_color:
  "(count_list orbs GOLD < 8 \<and> count_list orbs RED < 4 \<and> count_list orbs BLUE < 4
      \<and> count_list orbs GREEN < 4 \<longrightarrow>
      (1 \<le> count_list orbs RED \<and> 1 \<le> count_list orbs BLUE \<and> 1 \<le> count_list orbs GREEN \<longrightarrow>
         translateCargoToAttack orbs ship wp e = spawnChaosStorm ship wp e
       \<and> tier (fst (translateCargoToAttack orbs ship wp e)) = TIER_2
       \<and> map hazard_type (hazards (fst (translateCargoToAttack orbs ship wp e)))
            = [ASTEROID, ASTEROID, SEEKER, MINE, MINE]
       \<and> (\<forall>t. translateCargoToAttack orbs ship wp e \<noteq> spawnTier2Attack t ship wp e)
       \<and> (\<forall>t. translateCargoToAttack orbs ship wp e \<noteq> spawnEnhancedAttack t ship wp e))
    \<and> (\<not> (1 \<le> count_list orbs RED \<and> 1 \<le> count_list orbs BLUE \<and> 1 \<le> count_list orbs GREEN) \<longrightarrow>
         (3 \<le> count_list orbs RED \<longrightarrow>
            translateCargoToAttack orbs ship wp e = spawnTier2Attack RED ship wp e)
       \<and> (count_list orbs RED < 3 \<and> 3 \<le> count_list orbs BLUE \<longrightarrow>
            translateCargoToAttack orbs ship wp e = spawnTier2Attack BLUE ship wp e)
       \<and> (count_list orbs RED < 3 \<and> count_list orbs BLUE < 3 \<and> 3 \<le> count_list orbs GREEN \<longrightarrow>
            translateCargoToAttack orbs ship wp e = spawnTier2Attack GREEN ship wp e)
       \<and> (count_list orbs RED = 2 \<and> count_list orbs BLUE < 3 \<and> count_list orbs GREEN < 3 \<longrightarrow>
            translateCargoToAttack orbs ship wp e = spawnEnhancedAttack RED ship wp e)
       \<and> (count_list orbs RED < 2 \<and> count_list orbs BLUE = 2 \<and> count_list orbs GREEN < 3 \<longrightarrow>
            translateCargoToAttack orbs ship wp e = spawnEnhancedAttack BLUE ship wp e)
       \<and> (count_list orbs RED < 2 \<and> count_list orbs BLUE < 2 \<and> count_list orbs GREEN = 2 \<longrightarrow>
            translateCargoToAttack orbs ship wp e = spawnEnhancedAttack GREEN ship wp e)))
 \<and> tier (fst (translateCargoToAttack [RED, RED, RED, BLUE, GREEN] ship wp e)) = TIER_2
 \<and> translateCargoToAttack [RED, RED, RED, BLUE, GREEN] ship wp e = spawnChaosStorm ship wp e
 \<and> map hazard_type (hazards (fst (translateCargoToAttack [RED, RED, RED, BLUE, GREEN] ship wp e)))
      = [ASTEROID, ASTEROID, SEEKER, MINE, MINE]
 \<and> description (fst (translateCargoToAttack [RED, RED, RED, BLUE, GREEN] ship wp e)) = ''CHAOS STORM!''
 \<and> translateCargoToAttack [RED, RED, RED, BLUE, GREEN] ship wp e
      \<noteq> spawnTier2Attack RED ship wp e"
proof -
  have general: "count_list orbs GOLD < 8 \<and> count_list orbs RED < 4 \<and> count_list orbs BLUE < 4
      \<and> count_list orbs GREEN < 4 \<longrightarrow>
      (1 \<le> count_list orbs RED \<and> 1 \<le> count_list orbs BLUE \<and> 1 \<le> count_list orbs GREEN \<longrightarrow>
         translateCargoToAttack orbs ship wp e = spawnChaosStorm ship wp e
       \<and> tier (fst (translateCargoToAttack orbs ship wp e)) = TIER_2
       \<and> map hazard_type (hazards (fst (translateCargoToAttack orbs ship wp e)))
            = [ASTEROID, ASTEROID, SEEKER, MINE, MINE]
       \<and> (\<forall>t. translateCargoToAttack orbs ship wp e \<noteq> spawnTier2Attack t ship wp e)
       \<and> (\<forall>t. translateCargoToAttack orbs ship wp e \<noteq> spawnEnhancedAttack t ship wp e))
    \<and> (\<not> (1 \<le> count_list orbs RED \<and> 1 \<le> count_list orbs BLUE \<and> 1 \<le> count_list orbs GREEN) \<longrightarrow>
         (3 \<le> count_list orbs RED \<longrightarrow>
            translateCargoToAttack orbs ship wp e = spawnTier2Attack RED ship wp e)
       \<and> (count_list orbs RED < 3 \<and> 3 \<le> count_list orbs BLUE \<longrightarrow>
            translateCargoToAttack orbs ship wp e = spawnTier2Attack BLUE ship wp e)
       \<and> (count_list orbs RED < 3 \<and> count_list orbs BLUE < 3 \<and> 3 \<le> count_list orbs GREEN \<longrightarrow>
            translateCargoToAttack orbs ship wp e = spawnTier2Attack GREEN ship wp e)
       \<and> (count_list orbs RED = 2 \<and> count_list orbs BLUE < 3 \<and> count_list orbs GREEN < 3 \<longrightarrow>
            translateCargoToAttack orbs ship wp e = spawnEnhancedAttack RED ship wp e)
       \<and> (count_list orbs RED < 2 \<and> count_list orbs BLUE = 2 \<and> count_list orbs GREEN < 3 \<longrightarrow>
            translateCargoToAttack orbs ship wp e = spawnEnhancedAttack BLUE ship wp e)
       \<and> (count_list orbs RED < 2 \<and> count_list orbs BLUE < 2 \<and> count_list orbs GREEN = 2 \<longrightarrow>
            translateCargoToAttack orbs ship wp e = spawnEnhancedAttack GREEN ship wp e))"
  proof (intro impI conjI allI; (elim conjE)?)
    assume b: "count_list orbs GOLD < 8" "count_list orbs RED < 4" "count_list orbs BLUE < 4"
      "count_list orbs GREEN < 4"
    {
      assume c: "1 \<le> count_list orbs RED" "1 \<le> count_list orbs BLUE" "1 \<le> count_list orbs GREEN"
      note ch = translate_chaos [OF b c, of ship wp e]
      show "translateCargoToAttack orbs ship wp e = spawnChaosStorm ship wp e" by (rule ch)
      show "tier (fst (translateCargoToAttack orbs ship wp e)) = TIER_2"
        by (simp add: ch spawnChaosStorm_result)
      show "map hazard_type (hazards (fst (translateCargoToAttack orbs ship wp e)))
            = [ASTEROID, ASTEROID, SEEKER, MINE, MINE]"
        by (simp add: ch spawnChaosStorm_result)
      show "translateCargoToAttack orbs ship wp e \<noteq> spawnTier2Attack t ship wp e" for t
        by (simp add: ch chaos_is_no_same_color_attack)
      show "translateCargoToAttack orbs ship wp e \<noteq> spawnEnhancedAttack t ship wp e" for t
        by (simp add: ch chaos_is_no_same_color_attack)
    }
    {
      assume n: "\<not> (1 \<le> count_list orbs RED \<and> 1 \<le> count_list orbs BLUE \<and> 1 \<le> count_list orbs GREEN)"
      note sc = translate_same_color [OF b n, of ship wp e]
      show "translateCargoToAttack orbs ship wp e = spawnTier2Attack RED ship wp e"
        if "3 \<le> count_list orbs RED" using that by (rule sc(1))
      show "translateCargoToAttack orbs ship wp e = spawnTier2Attack BLUE ship wp e"
        if "count_list orbs RED < 3" "3 \<le> count_list orbs BLUE" using that by (rule sc(2))
      show "translateCargoToAttack orbs ship wp e = spawnTier2Attack GREEN ship wp e"
        if "count_list orbs RED < 3" "count_list orbs BLUE < 3" "3 \<le> count_list orbs GREEN"
        using that by (rule sc(3))
      show "translateCargoToAttack orbs ship wp e = spawnEnhancedAttack RED ship wp e"
        if "count_list orbs RED = 2" "count_list orbs BLUE < 3" "count_list orbs GREEN < 3"
        using that by (intro sc(4)) simp_all
      show "translateCargoToAttack orbs ship wp e = spawnEnhancedAttack BLUE ship wp e"
        if "count_list orbs RED < 2" "count_list orbs BLUE = 2" "count_list orbs GREEN < 3"
        using that by (intro sc(5)) simp_all
      show "translateCargoToAttack orbs ship wp e = spawnEnhancedAttack GREEN ship wp e"
        if "count_list orbs RED < 2" "count_list orbs BLUE < 2" "count_list orbs GREEN = 2"
        using that by (intro sc(6)) simp_all
    }
  qed
  have chaos: "translateCargoToAttack [RED, RED, RED, BLUE, GREEN] ship wp e = spawnChaosStorm ship wp e"
    by (rule translate_chaos) simp_all
  have d: "description (fst (spawnChaosStorm ship wp e)) = ''CHAOS STORM!''"
    by (simp add: spawnChaosStorm_def split_def Let_def)
  from general chaos d show ?thesis
    by (simp only: chaos_is_no_same_color_attack spawnChaosStorm_result simp_thms)
qed


theorem chaos_storm_before_same_color_witness:
  "translateCargoToAttack [BLUE, BLUE, BLUE, RED, GREEN] Player (Vec2_new 600 400)
       \<lparr>random_src = (\<lambda>_. 0), hazardIdCounter = 0, orbNextId = 0\<rparr>
     = spawnChaosStorm Player (Vec2_new 600 400)
         \<lparr>random_src = (\<lambda>_. 0), hazardIdCounter = 0, orbNextId = 0\<rparr>
 \<and> translateCargoToAttack [BLUE, BLUE, BLUE, RED, GREEN] Player (Vec2_new 600 400)
       \<lparr>random_src = (\<lambda>_. 0), hazardIdCounter = 0, orbNextId = 0\<rparr>
     \<noteq> spawnTier2Attack BLUE Player (Vec2_new 600 400)
         \<lparr>random_src = (\<lambda>_. 0), hazardIdCounter = 0, orbNextId = 0\<rparr>
 \<and> translateCargoToAttack [RED, RED, RED] Player (Vec2_new 600 400)
       \<lparr>random_src = (\<lambda>_. 0), hazardIdCounter = 0, orbNextId = 0\<rparr>
     = spawnTier2Attack RED Player (Vec2_new 600 400)
         \<lparr>random_src = (\<lambda>_. 0), hazardIdCounter = 0, orbNextId = 0\<rparr>
 \<and> translateCargoToAttack [GREEN, BLUE, GREEN] Player (Vec2_new 600 400)
       \<lparr>random_src = (\<lambda>_. 0), hazardIdCounter = 0, orbNextId = 0\<rparr>
     = spawnEnhancedAttack GREEN Player (Vec2_new 600 400)
         \<lparr>random_src = (\<lambda>_. 0), hazardIdCounter = 0, orbNextId = 0\<rparr>"
proof -
  let ?e = "\<lparr>random_src = (\<lambda>_. 0), hazardIdCounter = 0, orbNextId = 0\<rparr>"
  let ?wp = "Vec2_new 600 400"
  let ?a = "[BLUE, BLUE, BLUE, RED, GREEN]"
  let ?b = "[RED, RED, RED]"
  let ?c = "[GREEN, BLUE, GREEN]"
  have a: "count_list ?a GOLD < 8 \<and> count_list ?a RED < 4 \<and> count_list ?a BLUE < 4
      \<and> count_list ?a GREEN < 4"
    "1 \<le> count_list ?a RED \<and> 1 \<le> count_list ?a BLUE \<and> 1 \<le> count_list ?a GREEN"
    by simp_all
  have b: "count_list ?b GOLD < 8 \<and> count_list ?b RED < 4 \<and> count_list ?b BLUE < 4
      \<and> count_list ?b GREEN < 4"
    "\<not> (1 \<le> count_list ?b RED \<and> 1 \<le> count_list ?b BLUE \<and> 1 \<le> count_list ?b GREEN)"
    "3 \<le> count_list ?b RED"
    by simp_all
  have c: "count_list ?c GOLD < 8 \<and> count_list ?c RED < 4 \<and> count_list ?c BLUE < 4
      \<and> count_list ?c GREEN < 4"
    "\<not> (1 \<le> count_list ?c RED \<and> 1 \<le> count_list ?c BLUE \<and> 1 \<le> count_list ?c GREEN)"
    "count_list ?c RED < 2 \<and> count_list ?c BLUE < 2 \<and> count_list ?c GREEN = 2"
    by simp_all
  note ta = chaos_storm_before_same_color
      [of ?a Player ?wp ?e, THEN conjunct1, THEN mp, OF a(1), THEN conjunct1, THEN mp, OF a(2)]
  note 1 = ta [THEN conjunct1]
  note 2 = ta [THEN conjunct2, THEN conjunct2, THEN conjunct2, THEN conjunct1, THEN spec, of BLUE]
  note tb = chaos_storm_before_same_color
      [of ?b Player ?wp ?e, THEN conjunct1, THEN mp, OF b(1), THEN conjunct2, THEN mp, OF b(2)]
  note 3 = tb [THEN conjunct1, THEN mp, OF b(3)]
  note tc = chaos_storm_before_same_color
      [of ?c Player ?wp ?e, THEN conjunct1, THEN mp, OF c(1), THEN conjunct2, THEN mp, OF c(2)]
  note 4 = tc [THEN conjunct2, THEN conjunct2, THEN conjunct2, THEN conjunct2, THEN conjunct2,
        THEN mp, OF c(3)]
  from 1 2 3 4 show ?thesis by (intro conjI)
qed

subsection \<open>No branch below the nuke branch spawns a nuke\<close>

lemma for_push_no_nuke:
  "\<forall>h \<in> set (fst (for_push is (\<lambda>i e. apfst IsAsteroid (f i e)) e)). hazard_type h \<noteq> NUKE"
  "\<forall>h \<in> set (fst (for_push is (\<lambda>i e. apfst IsSeeker (g i e)) e)). hazard_type h \<noteq> NUKE"
  "\<forall>h \<in> set (fst (for_push is (\<lambda>i e. apfst IsMine (k i e)) e)). hazard_type h \<noteq> NUKE"
  by (rule for_push_all, simp)+

lemma spawnTier1Attack_no_nuke:
  "tier (fst (spawnTier1Attack t ship wp e)) = TIER_1"
  "\<forall>h \<in> set (hazards (fst (spawnTier1Attack t ship wp e))). hazard_type h \<noteq> NUKE"
  by (cases t; simp add: spawnTier1Attack_def split_def Let_def for_push_no_nuke)+

lemma spawnEnhancedAttack_no_nuke:
  "tier (fst (spawnEnhancedAttack t ship wp e)) = TIER_1_5"
  "\<forall>h \<in> set (hazards (fst (spawnEnhancedAttack t ship wp e))). hazard_type h \<noteq> NUKE"
  by (cases t; simp add: spawnEnhancedAttack_def split_def Let_def for_push_no_nuke ball_Un)+

lemma spawnTier2Attack_no_nuke:
  "tier (fst (spawnTier2Attack t ship wp e)) = TIER_2"
  "\<forall>h \<in> set (hazards (fst (spawnTier2Attack t ship wp e))). hazard_type h \<noteq> NUKE"
  by (cases t; simp add: spawnTier2Attack_def split_def Let_def for_push_no_nuke)+

lemma spawnMegaAttack_no_nuke:
  "tier (fst (spawnMegaAttack t ship wp e)) = TIER_3"
  "\<forall>h \<in> set (hazards (fst (spawnMegaAttack t ship wp e))). hazard_type h \<noteq> NUKE"
  by (cases t; simp add: spawnMegaAttack_def split_def Let_def for_push_no_nuke ball_Un)+

lemma spawnChaosStorm_no_nuke:
  "\<forall>h \<in> set (hazards (fst (spawnChaosStorm ship wp e))). hazard_type h \<noteq> NUKE"
  by (simp add: spawnChaosStorm_def split_def Let_def)


lemma translate_no_nuke:
  assumes "count_list orbs GOLD < 8"
  shows "tier (fst (translateCargoToAttack orbs ship wp e)) \<noteq> TIER_4
       \<and> (\<forall>h \<in> set (hazards (fst (translateCargoToAttack orbs ship wp e))). hazard_type h \<noteq> NUKE)"
proof -
  have "tier (fst r) \<noteq> TIER_4 \<and> (\<forall>h \<in> set (hazards (fst r)). hazard_type h \<noteq> NUKE)"
    if "r = spawnMegaAttack t ship wp e \<or> r = spawnChaosStorm ship wp e
      \<or> r = spawnTier2Attack t ship wp e \<or> r = spawnEnhancedAttack t ship wp e
      \<or> r = spawnTier1Attack t ship wp e
      \<or> r = (\<lparr>hazards = [], boostZones = [], tier = TIER_1,
                description = ''Nothing happened...''\<rparr>, e)" for r t
    using that
    by (elim disjE)
      (simp_all add: spawnTier1Attack_no_nuke spawnEnhancedAttack_no_nuke
        spawnTier2Attack_no_nuke spawnMegaAttack_no_nuke spawnChaosStorm_no_nuke
        spawnChaosStorm_result)
  moreover have "\<exists>t. translateCargoToAttack orbs ship wp e = spawnMegaAttack t ship wp e
      \<or> translateCargoToAttack orbs ship wp e = spawnChaosStorm ship wp e
      \<or> translateCargoToAttack orbs ship wp e = spawnTier2Attack t ship wp e
      \<or> translateCargoToAttack orbs ship wp e = spawnEnhancedAttack t ship wp e
      \<or> translateCargoToAttack orbs ship wp e = spawnTier1Attack t ship wp e
      \<or> translateCargoToAttack orbs ship wp e = (\<lparr>hazards = [], boostZones = [], tier = TIER_1,
                description = ''Nothing happened...''\<rparr>, e)"
    using assms
    unfolding translateCargoToAttack_def countOrbs_count_list Let_def
    by (auto split: option.splits)
  ultimately show ?thesis by blast
qed

lemma clearCargo_length: "length (fst (clearCargo s)) \<le> length (cargo s)"
  by (simp add: clearCargo_def Let_def)

subsection \<open>Distances\<close>

lemma length_vec_nonneg: "0 \<le> length_vec v"
  by (simp add: length_vec_def)

lemma length_vec_le_iff:
  assumes "0 \<le> r"
  shows "length_vec v \<le> r \<longleftrightarrow> lengthSq v \<le> r * r"
proof -
  from assms have "sqrt (r * r) = r" by simp
  then have "length_vec v \<le> r \<longleftrightarrow> sqrt (lengthSq v) \<le> sqrt (r * r)"
    by (simp add: length_vec_def lengthSq_def)
  then show ?thesis by (simp only: real_sqrt_le_iff)
qed

lemma length_vec_less_iff:
  assumes "0 \<le> r"
  shows "length_vec v < r \<longleftrightarrow> lengthSq v < r * r"
proof -
  from assms have "sqrt (r * r) = r" by simp
  then have "length_vec v < r \<longleftrightarrow> sqrt (lengthSq v) < sqrt (r * r)"
    by (simp add: length_vec_def lengthSq_def)
  then show ?thesis by (simp only: real_sqrt_less_iff)
qed

lemma length_vec_sub_commute: "length_vec (sub a b) = length_vec (sub b a)"
proof -
  have "(x - y) * (x - y) = (y - x) * (y - x)" for x y :: real
    by (simp add: algebra_simps)
  then show ?thesis
    by (simp add: length_vec_def sub_def Vec2_new_def)
qed

subsection \<open>Nuke safe zones\<close>

lemma corners_safe_iff:
  "list_ex (\<lambda>corner. length_vec (sub p corner) < 80) corners
     \<longleftrightarrow> (\<exists>corner \<in> set corners. length_vec (sub p corner) < 80)"
  by (simp add: list_ex_iff)

text \<open>
  C4, as stated, fails: the safe zone around the nuke has the nuke's own radius
  \<open>safeZoneRadius = 50\<close>, not the hub core radius \<open>WORMHOLE_RADIUS = 80\<close>. A ship 60
  units from a detonated nuke at the hub is within the hub core radius and is hit.
\<close>

theorem Nuke_core_radius_counterexample:
  "active \<lparr>hazard_id = 0, position = Vec2_new 600 400, velocity = Vec2_zero, radius = 375,
       lifetime = 40, maxLifetime = 420, active = True, maxRadius = 375, countdownTime = 0,
       detonated = True, explosionTime = 80, maxExplosionTime = 120, safeZoneRadius = 50\<rparr>
 \<and> detonated \<lparr>hazard_id = 0, position = Vec2_new 600 400, velocity = Vec2_zero, radius = 375,
       lifetime = 40, maxLifetime = 420, active = True, maxRadius = 375, countdownTime = 0,
       detonated = True, explosionTime = 80, maxExplosionTime = 120, safeZoneRadius = 50\<rparr>
 \<and> length_vec (sub (Vec2_new 660 400) (Vec2_new 600 400)) \<le> WORMHOLE_RADIUS
 \<and> Nuke_collidesWith
      \<lparr>hazard_id = 0, position = Vec2_new 600 400, velocity = Vec2_zero, radius = 375,
       lifetime = 40, maxLifetime = 420, active = True, maxRadius = 375, countdownTime = 0,
       detonated = True, explosionTime = 80, maxExplosionTime = 120, safeZoneRadius = 50\<rparr>
      (Vec2_new 660 400) SHIP_COLLISION_RADIUS"
  by (simp add: Nuke_collidesWith_def Let_def length_vec_le_iff length_vec_less_iff
        lengthSq_def sub_def Vec2_new_def corners_def WORLD_WIDTH_def WORLD_HEIGHT_def
        WORMHOLE_RADIUS_def SHIP_COLLISION_RADIUS_def)

text \<open>
  C4, amended. For every detonated, active nuke (safe-zone radius 50) and every ship
  position: \<open>collidesWith\<close> returns false whenever the ship position is within 50 units of
  the nuke's position or less than 80 units from one of the 4 world corners; otherwise it
  returns true exactly when the distance to the nuke is at most the blast radius plus the
  ship radius.
\<close>

theorem Nuke_collidesWith_safe_zones:
  assumes "active n" and "detonated n" and "safeZoneRadius n = 50"
  shows "(length_vec (sub p (position n)) \<le> 50
            \<or> (\<exists>corner \<in> set corners. length_vec (sub p corner) < 80)
          \<longrightarrow> \<not> Nuke_collidesWith n p r)
       \<and> (\<not> length_vec (sub p (position n)) \<le> 50
            \<and> \<not> (\<exists>corner \<in> set corners. length_vec (sub p corner) < 80)
          \<longrightarrow> Nuke_collidesWith n p r = (length_vec (sub p (position n)) \<le> radius n + r))"
  using assms
  by (simp add: Nuke_collidesWith_def Let_def corners_safe_iff length_vec_sub_commute [of "position n" p])

theorem Nuke_collidesWith_safe_zones_witness:
  "\<not> Nuke_collidesWith
      \<lparr>hazard_id = 0, position = Vec2_new 600 400, velocity = Vec2_zero, radius = 375,
       lifetime = 40, maxLifetime = 420, active = True, maxRadius = 375, countdownTime = 0,
       detonated = True, explosionTime = 80, maxExplosionTime = 120, safeZoneRadius = 50\<rparr>
      (Vec2_new 630 400) SHIP_COLLISION_RADIUS
 \<and> \<not> Nuke_collidesWith
      \<lparr>hazard_id = 0, position = Vec2_new 300 200, velocity = Vec2_zero, radius = 375,
       lifetime = 40, maxLifetime = 420, active = True, maxRadius = 375, countdownTime = 0,
       detonated = True, explosionTime = 80, maxExplosionTime = 120, safeZoneRadius = 50\<rparr>
      (Vec2_new 30 40) SHIP_COLLISION_RADIUS
 \<and> Nuke_collidesWith
      \<lparr>hazard_id = 0, position = Vec2_new 600 400, velocity = Vec2_zero, radius = 375,
       lifetime = 40, maxLifetime = 420, active = True, maxRadius = 375, countdownTime = 0,
       detonated = True, explosionTime = 80, maxExplosionTime = 120, safeZoneRadius = 50\<rparr>
      (Vec2_new 900 400) SHIP_COLLISION_RADIUS"
proof -
  let ?hub = "\<lparr>hazard_id = 0, position = Vec2_new 600 400, velocity = Vec2_zero, radius = 375,
       lifetime = 40, maxLifetime = 420, active = True, maxRadius = 375, countdownTime = 0,
       detonated = True, explosionTime = 80, maxExplosionTime = 120, safeZoneRadius = 50\<rparr>"
  let ?off = "\<lparr>hazard_id = 0, position = Vec2_new 300 200, velocity = Vec2_zero, radius = 375,
       lifetime = 40, maxLifetime = 420, active = True, maxRadius = 375, countdownTime = 0,
       detonated = True, explosionTime = 80, maxExplosionTime = 120, safeZoneRadius = 50\<rparr>"
  have geo:
    "length_vec (sub (Vec2_new 630 400) (Vec2_new 600 400)) \<le> 50"
    "length_vec (sub (Vec2_new 30 40) (Vec2_new 0 0)) < 80"
    "\<not> length_vec (sub (Vec2_new 900 400) (Vec2_new 600 400)) \<le> 50"
    "\<not> (\<exists>corner \<in> set corners. length_vec (sub (Vec2_new 900 400) corner) < 80)"
    "length_vec (sub (Vec2_new 900 400) (Vec2_new 600 400)) \<le> 375 + SHIP_COLLISION_RADIUS"
    by (simp_all add: length_vec_le_iff length_vec_less_iff lengthSq_def sub_def Vec2_new_def
          corners_def WORLD_WIDTH_def WORLD_HEIGHT_def SHIP_COLLISION_RADIUS_def)
  have c: "Vec2_new 0 0 \<in> set corners" by (simp add: corners_def)
  from Nuke_collidesWith_safe_zones [of ?hub "Vec2_new 630 400" SHIP_COLLISION_RADIUS] geo(1)
  have 1: "\<not> Nuke_collidesWith ?hub (Vec2_new 630 400) SHIP_COLLISION_RADIUS" by simp
  from Nuke_collidesWith_safe_zones [of ?off "Vec2_new 30 40" SHIP_COLLISION_RADIUS] geo(2) c
  have 2: "\<not> Nuke_collidesWith ?off (Vec2_new 30 40) SHIP_COLLISION_RADIUS" by auto
  from Nuke_collidesWith_safe_zones [of ?hub "Vec2_new 900 400" SHIP_COLLISION_RADIUS] geo(3,4,5)
  have 3: "Nuke_collidesWith ?hub (Vec2_new 900 400) SHIP_COLLISION_RADIUS" by simp
  from 1 2 3 show ?thesis by blast
qed

subsection \<open>Seeker drone lifetime\<close>

lemma SeekerDrone_update_no_target:
  "targetShip d = None \<Longrightarrow> SeekerDrone_update ships d = d"
  by (simp add: SeekerDrone_update_def)

lemma SeekerDrone_update_no_target_iterated:
  "targetShip d = None \<Longrightarrow> (SeekerDrone_update ships ^^ n) d = d"
  by (induction n) (simp_all add: SeekerDrone_update_no_target)

lemma SeekerDrone_new_fields:
  "targetShip (fst (SeekerDrone_new p e)) = None"
  "lifetime (fst (SeekerDrone_new p e)) = 20 * 60"
  "maxLifetime (fst (SeekerDrone_new p e)) = 20 * 60"
  "active (fst (SeekerDrone_new p e))"
  by (simp_all add: SeekerDrone_new_def split_def Let_def)

lemma SeekerDrone_update_with_target:
  assumes "active d" and "targetShip d = Some r"
  shows "lifetime (SeekerDrone_update ships d) = lifetime d - 1"
    and "active (SeekerDrone_update ships d)"
    and "targetShip (SeekerDrone_update ships d) = Some r"
  using assms by (simp_all add: SeekerDrone_update_def Let_def)

lemma SeekerDrone_with_target_expires:
  assumes "active d" and "targetShip d = Some r"
  shows "lifetime ((SeekerDrone_update ships ^^ n) d) = lifetime d - int n
       \<and> active ((SeekerDrone_update ships ^^ n) d)
       \<and> targetShip ((SeekerDrone_update ships ^^ n) d) = Some r"
  using assms by (induction n) (simp_all add: SeekerDrone_update_with_target)

lemma SeekerDrone_updates_with_target:
  assumes "active d" and "targetShip d = Some r"
  shows "lifetime (foldl (\<lambda>d ships. SeekerDrone_update ships d) d shipss)
           = lifetime d - int (length shipss)
       \<and> active (foldl (\<lambda>d ships. SeekerDrone_update ships d) d shipss)
       \<and> targetShip (foldl (\<lambda>d ships. SeekerDrone_update ships d) d shipss) = Some r"
  using assms
proof (induction shipss arbitrary: d)
  case Nil
  then show ?case by simp
next
  case (Cons ships shipss)
  from Cons.IH [of "SeekerDrone_update ships d"]
       SeekerDrone_update_with_target [OF Cons.prems, of ships]
  show ?case by simp
qed

lemma spawnSeeker_fields:
  "active (fst (spawnSeeker ship wp e))"
  "targetShip (fst (spawnSeeker ship wp e)) = Some ship"
  "lifetime (fst (spawnSeeker ship wp e)) = 20 * 60"
  "maxLifetime (fst (spawnSeeker ship wp e)) = 20 * 60"
  by (simp_all add: spawnSeeker_def setTarget_def SeekerDrone_new_def split_def Let_def)

text \<open>
  C6, as stated, fails for a drone without a target: \<open>update\<close> returns at the guard for
  a missing target, before the lifetime is decremented, so a freshly constructed drone
  (no \<open>setTarget\<close> call) is not expired after 1200 updates.
\<close>

theorem SeekerDrone_untargeted_counterexample:
  "active (fst (SeekerDrone_new (Vec2_new 100 100)
             \<lparr>random_src = (\<lambda>_. 0), hazardIdCounter = 0, orbNextId = 0\<rparr>))
 \<and> maxLifetime (fst (SeekerDrone_new (Vec2_new 100 100)
             \<lparr>random_src = (\<lambda>_. 0), hazardIdCounter = 0, orbNextId = 0\<rparr>)) = 1200
 \<and> \<not> isExpired ((SeekerDrone_update (\<lambda>_. Ship_new 600 600) ^^ 1200)
        (fst (SeekerDrone_new (Vec2_new 100 100)
             \<lparr>random_src = (\<lambda>_. 0), hazardIdCounter = 0, orbNextId = 0\<rparr>)))"
  by (simp add: SeekerDrone_update_no_target_iterated SeekerDrone_new_fields isExpired_def)

text \<open>
  C6, amended. Every active seeker drone with a target assigned loses one unit of
  lifetime per \<open>update\<close>, wherever the ships are at each update, so it is expired exactly
  when the number of updates has reached its lifetime. Every drone made by
  \<open>spawnSeeker\<close> has its target assigned and its lifetime at \<open>maxLifetime = 1200\<close>, so it
  is expired after 1200 updates and not before. A drone without a target is left
  unchanged by \<open>update\<close>.
\<close>

theorem SeekerDrone_with_target_expires_after_lifetime:
  "(active d \<and> targetShip d = Some r \<longrightarrow>
      lifetime (foldl (\<lambda>d ships. SeekerDrone_update ships d) d shipss)
        = lifetime d - int (length shipss)
    \<and> active (foldl (\<lambda>d ships. SeekerDrone_update ships d) d shipss)
    \<and> (isExpired (foldl (\<lambda>d ships. SeekerDrone_update ships d) d shipss)
         \<longleftrightarrow> lifetime d \<le> int (length shipss)))
 \<and> active (fst (spawnSeeker ship wp e))
 \<and> targetShip (fst (spawnSeeker ship wp e)) = Some ship
 \<and> lifetime (fst (spawnSeeker ship wp e)) = maxLifetime (fst (spawnSeeker ship wp e))
 \<and> maxLifetime (fst (spawnSeeker ship wp e)) = 20 * 60
 \<and> (isExpired (foldl (\<lambda>d ships. SeekerDrone_update ships d) (fst (spawnSeeker ship wp e)) shipss)
       \<longleftrightarrow> 20 * 60 \<le> length shipss)
 \<and> (targetShip d = None \<longrightarrow> SeekerDrone_update ships d = d)"
proof -
  have general: "active d \<and> targetShip d = Some r \<longrightarrow>
      lifetime (foldl (\<lambda>d ships. SeekerDrone_update ships d) d shipss)
        = lifetime d - int (length shipss)
    \<and> active (foldl (\<lambda>d ships. SeekerDrone_update ships d) d shipss)
    \<and> (isExpired (foldl (\<lambda>d ships. SeekerDrone_update ships d) d shipss)
         \<longleftrightarrow> lifetime d \<le> int (length shipss))"
    using SeekerDrone_updates_with_target [of d r shipss]
    by (auto simp: isExpired_def)
  have spawned: "isExpired (foldl (\<lambda>d ships. SeekerDrone_update ships d)
                    (fst (spawnSeeker ship wp e)) shipss) \<longleftrightarrow> 20 * 60 \<le> length shipss"
    using SeekerDrone_updates_with_target
            [OF spawnSeeker_fields(1) spawnSeeker_fields(2), of ship wp e shipss]
    by (auto simp: isExpired_def spawnSeeker_fields)
  from general spawned show ?thesis
    by (simp add: spawnSeeker_fields SeekerDrone_update_no_target)
qed

theorem SeekerDrone_with_target_expires_after_lifetime_witness:
  "isExpired (foldl (\<lambda>d ships. SeekerDrone_update ships d)
      (setTarget Player (fst (SeekerDrone_new (Vec2_new 100 100)
             \<lparr>random_src = (\<lambda>_. 0), hazardIdCounter = 0, orbNextId = 0\<rparr>)))
      (replicate 1200 (\<lambda>_. Ship_new 600 600)))
 \<and> \<not> isExpired (foldl (\<lambda>d ships. SeekerDrone_update ships d)
      (setTarget Player (fst (SeekerDrone_new (Vec2_new 100 100)
             \<lparr>random_src = (\<lambda>_. 0), hazardIdCounter = 0, orbNextId = 0\<rparr>)))
      (replicate 1199 (\<lambda>_. Ship_new 600 600)))
 \<and> SeekerDrone_update (\<lambda>_. Ship_new 600 600)
      (fst (SeekerDrone_new (Vec2_new 100 100)
             \<lparr>random_src = (\<lambda>_. 0), hazardIdCounter = 0, orbNextId = 0\<rparr>))
     = fst (SeekerDrone_new (Vec2_new 100 100)
             \<lparr>random_src = (\<lambda>_. 0), hazardIdCounter = 0, orbNextId = 0\<rparr>)"
proof -
  let ?e = "\<lparr>random_src = (\<lambda>_. 0), hazardIdCounter = 0, orbNextId = 0\<rparr>"
  let ?bare = "fst (SeekerDrone_new (Vec2_new 100 100) ?e)"
  let ?d = "setTarget Player ?bare"
  let ?ships = "\<lambda>_::ship_ref. Ship_new 600 600"
  have f: "active ?d \<and> targetShip ?d = Some Player" "lifetime ?d = 1200"
    by (simp_all add: setTarget_def SeekerDrone_new_fields)
  have n: "targetShip ?bare = None" by (simp add: SeekerDrone_new_fields)
  note a = SeekerDrone_with_target_expires_after_lifetime
      [of ?d Player "replicate 1200 ?ships", THEN conjunct1, THEN mp, OF f(1)]
  note b = SeekerDrone_with_target_expires_after_lifetime
      [of ?d Player "replicate 1199 ?ships", THEN conjunct1, THEN mp, OF f(1)]
  note c = SeekerDrone_with_target_expires_after_lifetime
      [of ?bare _ _ _ _ _ ?ships, THEN conjunct2, THEN conjunct2, THEN conjunct2, THEN conjunct2,
        THEN conjunct2, THEN conjunct2, THEN mp, OF n]
  from a f(2) have 1: "isExpired (foldl (\<lambda>d ships. SeekerDrone_update ships d) ?d
      (replicate 1200 ?ships))" by simp
  from b f(2) have 2: "\<not> isExpired (foldl (\<lambda>d ships. SeekerDrone_update ships d) ?d
      (replicate 1199 ?ships))" by simp
  from 1 2 c show ?thesis by (intro conjI)
qed

subsection \<open>Ship movement and screen wrap\<close>

lemma wrapPosition_x:
  "vec_x (ship_position (wrapPosition s)) =
     (if vec_x (ship_position s) < 0 then vec_x (ship_position s) + WORLD_WIDTH
      else if vec_x (ship_position s) > WORLD_WIDTH then vec_x (ship_position s) - WORLD_WIDTH
      else vec_x (ship_position s))"
  by (simp add: wrapPosition_def Let_def)

lemma wrapPosition_y:
  "vec_y (ship_position (wrapPosition s)) =
     (if vec_y (ship_position s) < 0 then vec_y (ship_position s) + WORLD_HEIGHT
      else if vec_y (ship_position s) > WORLD_HEIGHT then vec_y (ship_position s) - WORLD_HEIGHT
      else vec_y (ship_position s))"
  by (simp add: wrapPosition_def Let_def)

lemma lengthSq_clamp:
  assumes "0 \<le> m"
  shows "lengthSq (clamp v m) \<le> m * m"
proof (cases "length_vec v > m")
  case False
  then have "length_vec v \<le> m" by simp
  with assms have "lengthSq v \<le> m * m" by (simp add: length_vec_le_iff)
  with False show ?thesis by (simp add: clamp_def Let_def lengthSq_def Vec2_new_def)
next
  case True
  define l where "l = length_vec v"
  from True assms have lpos: "l > 0" by (simp add: l_def)
  have ll: "l * l = vec_x v * vec_x v + vec_y v * vec_y v"
    unfolding l_def length_vec_def
    by (simp add: real_sqrt_mult_self)
  have "lengthSq (clamp v m) = (vec_x v / l * m) * (vec_x v / l * m) + (vec_y v / l * m) * (vec_y v / l * m)"
    using True lpos
    by (simp add: clamp_def Let_def normalize_vec_def mul_def div_vec_def lengthSq_def Vec2_new_def l_def)
  also have "\<dots> = (vec_x v * vec_x v + vec_y v * vec_y v) / (l * l) * (m * m)"
    using lpos by (simp add: field_simps)
  also have "\<dots> = m * m"
    using lpos by (simp add: ll [symmetric])
  finally show ?thesis by simp
qed

lemma component_bound:
  assumes "0 \<le> m" and "lengthSq v \<le> m * m"
  shows "\<bar>vec_x v\<bar> \<le> m" and "\<bar>vec_y v\<bar> \<le> m"
proof -
  have "vec_x v * vec_x v \<le> lengthSq v" by (simp add: lengthSq_def)
  with assms(2) have "vec_x v * vec_x v \<le> m * m" by linarith
  then have "\<bar>vec_x v\<bar> \<le> \<bar>m\<bar>"
    by (simp add: abs_le_square_iff power2_eq_square)
  with assms(1) show "\<bar>vec_x v\<bar> \<le> m" by simp
  have "vec_y v * vec_y v \<le> lengthSq v" by (simp add: lengthSq_def)
  with assms(2) have "vec_y v * vec_y v \<le> m * m" by linarith
  then have "\<bar>vec_y v\<bar> \<le> \<bar>m\<bar>"
    by (simp add: abs_le_square_iff power2_eq_square)
  with assms(1) show "\<bar>vec_y v\<bar> \<le> m" by simp
qed


lemma wrapPosition_velocity: "ship_velocity (wrapPosition s) = ship_velocity s"
  by (simp add: wrapPosition_def Let_def)

lemma Ship_update_stages:
  "Ship_update s = (if isDead s then s else cool_down (advance (accelerate (steer s))))"
  unfolding Ship_update_def cool_down_def advance_def accelerate_def steer_def Let_def
  by (rule refl)


lemma steer_keeps:
  "ship_position (steer s) = ship_position s"
  "ship_velocity (steer s) = ship_velocity s"
  "speedBoost (steer s) = speedBoost s"
  "thrusting (steer s) = thrusting s"
  by (simp_all add: steer_def Let_def)

lemma accelerate_keeps:
  "ship_position (accelerate s) = ship_position s"
  "speedBoost (accelerate s) = speedBoost s"
  by (simp_all add: accelerate_def Let_def)

lemma accelerate_velocity:
  "ship_velocity (accelerate s) =
     mul (clamp (if thrusting s
                 then add (ship_velocity s) (mul (fromAngle (angle s)) (SHIP_THRUST * speedBoost s))
                 else ship_velocity s)
           (SHIP_MAX_SPEED * speedBoost s)) SHIP_DRAG"
  by (simp add: accelerate_def Let_def)

lemma advance_velocity: "ship_velocity (advance s) = ship_velocity s"
  by (simp add: advance_def wrapPosition_velocity)

lemma advance_position:
  "vec_x (ship_position (advance s)) =
     (let x' = vec_x (ship_position s) + vec_x (ship_velocity s)
      in if x' < 0 then x' + WORLD_WIDTH
         else if x' > WORLD_WIDTH then x' - WORLD_WIDTH else x')"
  "vec_y (ship_position (advance s)) =
     (let y' = vec_y (ship_position s) + vec_y (ship_velocity s)
      in if y' < 0 then y' + WORLD_HEIGHT
         else if y' > WORLD_HEIGHT then y' - WORLD_HEIGHT else y')"
  by (simp_all add: advance_def wrapPosition_x wrapPosition_y add_def Vec2_new_def Let_def)

lemma cool_down_keeps:
  "ship_position (cool_down s) = ship_position s"
  "ship_velocity (cool_down s) = ship_velocity s"
  by (simp_all add: cool_down_def Let_def)

lemma Ship_update_position:
  assumes "\<not> isDead s"
  shows "vec_x (ship_position (Ship_update s)) =
           (let x' = vec_x (ship_position s) + vec_x (ship_velocity (Ship_update s))
            in if x' < 0 then x' + WORLD_WIDTH
               else if x' > WORLD_WIDTH then x' - WORLD_WIDTH else x')"
    and "vec_y (ship_position (Ship_update s)) =
           (let y' = vec_y (ship_position s) + vec_y (ship_velocity (Ship_update s))
            in if y' < 0 then y' + WORLD_HEIGHT
               else if y' > WORLD_HEIGHT then y' - WORLD_HEIGHT else y')"
  using assms
  by (simp_all only: Ship_update_stages if_False cool_down_keeps advance_position advance_velocity
        accelerate_keeps steer_keeps)


lemma Ship_update_velocity:
  assumes "\<not> isDead s"
  shows "ship_velocity (Ship_update s) =
     mul (clamp (if thrusting s
                 then add (ship_velocity s)
                        (mul (fromAngle (angle (steer s))) (SHIP_THRUST * speedBoost s))
                 else ship_velocity s)
           (SHIP_MAX_SPEED * speedBoost s)) SHIP_DRAG"
  using assms
  by (simp only: Ship_update_stages if_False cool_down_keeps advance_velocity
        accelerate_velocity steer_keeps)

lemma clamp_zero: "0 \<le> m \<Longrightarrow> clamp Vec2_zero m = Vec2_new 0 0"
  by (simp add: clamp_def length_vec_def Vec2_zero_def Vec2_new_def)

lemma Ship_new_fields:
  "\<not> isDead (Ship_new a b)"
  "\<not> thrusting (Ship_new a b)"
  "ship_velocity (Ship_new a b) = Vec2_zero"
  "speedBoost (Ship_new a b) = 1"
  "ship_position (Ship_new a b) = Vec2_new a b"
  by (simp_all add: Ship_new_def)

lemma Ship_new_update_velocity: "ship_velocity (Ship_update (Ship_new a b)) = Vec2_new 0 0"
  by (simp add: Ship_update_velocity Ship_new_fields clamp_zero SHIP_MAX_SPEED_def mul_def
        Vec2_new_def)

text \<open>
  C5, as stated, fails. A position is wrapped only when it is strictly beyond
  \<open>WORLD_WIDTH\<close>, so a ship resting at \<open>x = WORLD_WIDTH\<close> stays there; and the wrap
  shifts by one world width only, so a ship at \<open>x = 3000\<close> ends at \<open>x = 1800\<close>.
\<close>

theorem Ship_wrap_counterexample:
  "\<not> isDead (Ship_new 1200 400)
 \<and> \<not> vec_x (ship_position (Ship_update (Ship_new 1200 400))) < WORLD_WIDTH
 \<and> \<not> isDead (Ship_new 3000 400)
 \<and> \<not> vec_x (ship_position (Ship_update (Ship_new 3000 400))) < WORLD_WIDTH"
  by (simp add: Ship_update_position Ship_new_fields Ship_new_update_velocity Vec2_new_def
        WORLD_WIDTH_def)

lemma Ship_update_speed:
  assumes "\<not> isDead s" and "0 \<le> speedBoost s"
  shows "\<bar>vec_x (ship_velocity (Ship_update s))\<bar> \<le> SHIP_MAX_SPEED * speedBoost s"
    and "\<bar>vec_y (ship_velocity (Ship_update s))\<bar> \<le> SHIP_MAX_SPEED * speedBoost s"
proof -
  let ?m = "SHIP_MAX_SPEED * speedBoost s"
  from assms(2) have m: "0 \<le> ?m" by (simp add: SHIP_MAX_SPEED_def)
  from Ship_update_velocity [OF assms(1)] obtain v where
    v: "ship_velocity (Ship_update s) = mul (clamp v ?m) SHIP_DRAG" by blast
  from component_bound [OF m lengthSq_clamp [OF m]]
  have c: "\<bar>vec_x (clamp v ?m)\<bar> \<le> ?m" "\<bar>vec_y (clamp v ?m)\<bar> \<le> ?m" by simp_all
  have d: "\<bar>a * SHIP_DRAG\<bar> \<le> \<bar>a\<bar>" for a :: real
    by (simp add: SHIP_DRAG_def abs_mult)
  from c(1) d [of "vec_x (clamp v ?m)"] v
  show "\<bar>vec_x (ship_velocity (Ship_update s))\<bar> \<le> ?m"
    by (simp add: mul_def Vec2_new_def)
  from c(2) d [of "vec_y (clamp v ?m)"] v
  show "\<bar>vec_y (ship_velocity (Ship_update s))\<bar> \<le> ?m"
    by (simp add: mul_def Vec2_new_def)
qed

lemma wrap_range:
  fixes a w :: real
  assumes "- w \<le> a" and "a \<le> 2 * w"
  shows "0 \<le> (if a < 0 then a + w else if a > w then a - w else a)"
    and "(if a < 0 then a + w else if a > w then a - w else a) \<le> w"
  using assms by auto

lemma wrapPosition_angle: "angle (wrapPosition s) = angle s"
  by (simp add: wrapPosition_def Let_def)

lemma stage_angles:
  "angle (steer s) = angle s - (if rotatingLeft s then SHIP_ROTATION_SPEED else 0)
                       + (if rotatingRight s then SHIP_ROTATION_SPEED else 0)"
  "angle (accelerate s) = angle s"
  "angle (advance s) = angle s"
  "angle (cool_down s) = angle s"
  by (simp_all add: steer_def accelerate_def advance_def cool_down_def Let_def wrapPosition_angle)

lemma Ship_update_angle:
  assumes "\<not> isDead s"
  shows "angle (Ship_update s) = angle s - (if rotatingLeft s then SHIP_ROTATION_SPEED else 0)
                       + (if rotatingRight s then SHIP_ROTATION_SPEED else 0)"
    and "angle (steer s) = angle (Ship_update s)"
  using assms by (simp_all only: Ship_update_stages if_False stage_angles)

lemma clamp_within:
  assumes "0 \<le> m" and "lengthSq v \<le> m * m"
  shows "clamp v m = Vec2_new (vec_x v) (vec_y v)"
proof -
  from assms have "length_vec v \<le> m" by (simp add: length_vec_le_iff)
  then show ?thesis by (simp add: clamp_def Let_def)
qed

text \<open>
  C5, amended. For every alive ship whose position lies in the closed world rectangle
  (\<open>0 \<le> x \<le> WORLD_WIDTH\<close>, \<open>0 \<le> y \<le> WORLD_HEIGHT\<close>) and whose speed boost is between
  0 and 2 (the game only sets 1, 1.5 and 2), whatever its velocity and inputs: \<open>update\<close>
  turns the ship by its rotation inputs, sets the velocity to the thrust-adjusted
  velocity capped at the maximum speed and multiplied by the drag, and moves the ship by
  that velocity; a coordinate that has then left the world is shifted by exactly one
  world width (height) to the opposite side, never set to the edge; and the new position
  lies in the closed world rectangle again.
\<close>

theorem Ship_update_stays_in_world:
  assumes "\<not> isDead s"
    and "0 \<le> speedBoost s" and "speedBoost s \<le> 2"
    and "0 \<le> vec_x (ship_position s)" and "vec_x (ship_position s) \<le> WORLD_WIDTH"
    and "0 \<le> vec_y (ship_position s)" and "vec_y (ship_position s) \<le> WORLD_HEIGHT"
  shows "angle (Ship_update s) =
           angle s - (if rotatingLeft s then SHIP_ROTATION_SPEED else 0)
                   + (if rotatingRight s then SHIP_ROTATION_SPEED else 0)
       \<and> ship_velocity (Ship_update s) =
           mul (clamp (if thrusting s
                       then add (ship_velocity s)
                              (mul (fromAngle (angle (Ship_update s))) (SHIP_THRUST * speedBoost s))
                       else ship_velocity s)
                 (SHIP_MAX_SPEED * speedBoost s)) SHIP_DRAG
       \<and> vec_x (ship_position (Ship_update s)) =
           (let x' = vec_x (ship_position s) + vec_x (ship_velocity (Ship_update s))
            in if x' < 0 then x' + WORLD_WIDTH
               else if x' > WORLD_WIDTH then x' - WORLD_WIDTH else x')
       \<and> vec_y (ship_position (Ship_update s)) =
           (let y' = vec_y (ship_position s) + vec_y (ship_velocity (Ship_update s))
            in if y' < 0 then y' + WORLD_HEIGHT
               else if y' > WORLD_HEIGHT then y' - WORLD_HEIGHT else y')
       \<and> 0 \<le> vec_x (ship_position (Ship_update s))
       \<and> vec_x (ship_position (Ship_update s)) \<le> WORLD_WIDTH
       \<and> 0 \<le> vec_y (ship_position (Ship_update s))
       \<and> vec_y (ship_position (Ship_update s)) \<le> WORLD_HEIGHT"
proof -
  from assms(3) have "SHIP_MAX_SPEED * speedBoost s \<le> 10"
    by (simp add: SHIP_MAX_SPEED_def)
  with Ship_update_speed [OF assms(1,2)]
  have v: "\<bar>vec_x (ship_velocity (Ship_update s))\<bar> \<le> 10"
          "\<bar>vec_y (ship_velocity (Ship_update s))\<bar> \<le> 10"
    by linarith+
  let ?x = "vec_x (ship_position s) + vec_x (ship_velocity (Ship_update s))"
  let ?y = "vec_y (ship_position s) + vec_y (ship_velocity (Ship_update s))"
  from v(1) assms(4,5) have xr: "- WORLD_WIDTH \<le> ?x" "?x \<le> 2 * WORLD_WIDTH"
    by (simp_all add: WORLD_WIDTH_def)
  from v(2) assms(6,7) have yr: "- WORLD_HEIGHT \<le> ?y" "?y \<le> 2 * WORLD_HEIGHT"
    by (simp_all add: WORLD_HEIGHT_def)
  from wrap_range [OF xr] wrap_range [OF yr]
  have bounds: "0 \<le> vec_x (ship_position (Ship_update s))
       \<and> vec_x (ship_position (Ship_update s)) \<le> WORLD_WIDTH
       \<and> 0 \<le> vec_y (ship_position (Ship_update s))
       \<and> vec_y (ship_position (Ship_update s)) \<le> WORLD_HEIGHT"
    by (simp only: Ship_update_position [OF assms(1)] Let_def)
  have vel: "ship_velocity (Ship_update s) =
           mul (clamp (if thrusting s
                       then add (ship_velocity s)
                              (mul (fromAngle (angle (Ship_update s))) (SHIP_THRUST * speedBoost s))
                       else ship_velocity s)
                 (SHIP_MAX_SPEED * speedBoost s)) SHIP_DRAG"
    using Ship_update_velocity [OF assms(1)]
    by (simp only: Ship_update_angle(2) [OF assms(1)])
  from Ship_update_angle(1) [OF assms(1)] vel Ship_update_position [OF assms(1)] bounds
  show ?thesis by (intro conjI) (elim conjE, assumption)+
qed

theorem Ship_update_stays_in_world_witness:
  "vec_x (ship_position (Ship_update ((Ship_new 1199 1)\<lparr>ship_velocity := Vec2_new 4 (- 3)\<rparr>)))
     = 1199 + 4 * SHIP_DRAG - WORLD_WIDTH
 \<and> vec_y (ship_position (Ship_update ((Ship_new 1199 1)\<lparr>ship_velocity := Vec2_new 4 (- 3)\<rparr>)))
     = 1 - 3 * SHIP_DRAG + WORLD_HEIGHT
 \<and> 0 \<le> vec_x (ship_position (Ship_update ((Ship_new 1199 1)\<lparr>ship_velocity := Vec2_new 4 (- 3)\<rparr>)))
 \<and> vec_y (ship_position (Ship_update ((Ship_new 1199 1)\<lparr>ship_velocity := Vec2_new 4 (- 3)\<rparr>)))
     \<le> WORLD_HEIGHT"
proof -
  let ?s = "(Ship_new 1199 1)\<lparr>ship_velocity := Vec2_new 4 (- 3)\<rparr>"
  have f: "\<not> isDead ?s" "0 \<le> speedBoost ?s" "speedBoost ?s \<le> 2"
    "0 \<le> vec_x (ship_position ?s)" "vec_x (ship_position ?s) \<le> WORLD_WIDTH"
    "0 \<le> vec_y (ship_position ?s)" "vec_y (ship_position ?s) \<le> WORLD_HEIGHT"
    by (simp_all add: Ship_new_def Vec2_new_def WORLD_WIDTH_def WORLD_HEIGHT_def)
  have c: "clamp (Vec2_new 4 (- 3)) 5 = Vec2_new 4 (- 3)"
    using clamp_within [of 5 "Vec2_new 4 (- 3)"]
    by (simp add: lengthSq_def Vec2_new_def)
  note t = Ship_update_stays_in_world [OF f]
  have vel: "ship_velocity (Ship_update ?s) = Vec2_new (4 * SHIP_DRAG) (- 3 * SHIP_DRAG)"
    using t [THEN conjunct2, THEN conjunct1]
    by (simp add: Ship_new_def c [unfolded Vec2_new_def] SHIP_MAX_SPEED_def mul_def Vec2_new_def)
  from t vel show ?thesis
    by (simp add: Ship_new_def Let_def Vec2_new_def SHIP_DRAG_def WORLD_WIDTH_def WORLD_HEIGHT_def)
qed

subsection \<open>Banking guard\<close>

text \<open>
  C9. When the ship is outside the banking zone of the grid's wormhole, or its cargo is
  empty, \<open>bankOrbs\<close> changes nothing: the grid (ship and cargo, hazards, boost zones,
  \<open>lastAttackResult\<close>, \<open>attackMessageTimer\<close>, \<open>screenShake\<close> and every other field) and the
  environment are returned as they were, and no event is emitted.
\<close>

theorem bankOrbs_guard_noop:
  assumes "\<not> isInBankingZone_at h (grid_wormhole g) (ship_position (grid_ship g))
             \<or> isCargoEmpty (grid_ship g)"
  shows "bankOrbs notify g h e = (g, e, [])"
  using assms by (auto simp: bankOrbs_def Let_def)

theorem bankOrbs_guard_noop_witness:
  "bankOrbs (\<lambda>_ _ e. e)
     ((fst (GridState_new Player True 600 600 (Some 0) (snd (alloc_wormhole Wormhole_new empty_heap))))
        \<lparr>grid_ship := (Ship_new 600 600)\<lparr>cargo := [Some RED, None, None, None]\<rparr>\<rparr>)
     (snd (alloc_wormhole Wormhole_new empty_heap))
     \<lparr>random_src = (\<lambda>_. 0), hazardIdCounter = 0, orbNextId = 0\<rparr>
   = ((fst (GridState_new Player True 600 600 (Some 0) (snd (alloc_wormhole Wormhole_new empty_heap))))
        \<lparr>grid_ship := (Ship_new 600 600)\<lparr>cargo := [Some RED, None, None, None]\<rparr>\<rparr>,
      \<lparr>random_src = (\<lambda>_. 0), hazardIdCounter = 0, orbNextId = 0\<rparr>, [])
 \<and> bankOrbs (\<lambda>_ _ e. e)
     (fst (GridState_new Player True 600 450 (Some 0) (snd (alloc_wormhole Wormhole_new empty_heap))))
     (snd (alloc_wormhole Wormhole_new empty_heap))
     \<lparr>random_src = (\<lambda>_. 0), hazardIdCounter = 0, orbNextId = 0\<rparr>
   = (fst (GridState_new Player True 600 450 (Some 0) (snd (alloc_wormhole Wormhole_new empty_heap))),
      \<lparr>random_src = (\<lambda>_. 0), hazardIdCounter = 0, orbNextId = 0\<rparr>, [])"
proof -
  let ?h = "snd (alloc_wormhole Wormhole_new empty_heap)"
  let ?far = "(fst (GridState_new Player True 600 600 (Some 0) ?h))
        \<lparr>grid_ship := (Ship_new 600 600)\<lparr>cargo := [Some RED, None, None, None]\<rparr>\<rparr>"
  let ?near = "fst (GridState_new Player True 600 450 (Some 0) ?h)"
  let ?e = "\<lparr>random_src = (\<lambda>_. 0), hazardIdCounter = 0, orbNextId = 0\<rparr>"
  have far: "\<not> isInBankingZone_at ?h (grid_wormhole ?far) (ship_position (grid_ship ?far))"
    by (simp add: isInBankingZone_at_def isInBankingZone_def alloc_wormhole_def empty_heap_def
          GridState_new_def Wormhole_new_def Ship_new_def Let_def length_vec_le_iff lengthSq_def
          sub_def Vec2_new_def WORMHOLE_BANKING_RADIUS_def WORLD_WIDTH_def WORLD_HEIGHT_def)
  have near: "isCargoEmpty (grid_ship ?near)"
    by (simp add: isCargoEmpty_def getCargoCount_def GridState_new_def Ship_new_def)
  from bankOrbs_guard_noop [of ?h ?far "\<lambda>_ _ e. e" ?e] far
  have 1: "bankOrbs (\<lambda>_ _ e. e) ?far ?h ?e = (?far, ?e, [])" by blast
  from bankOrbs_guard_noop [of ?h ?near "\<lambda>_ _ e. e" ?e] near
  have 2: "bankOrbs (\<lambda>_ _ e. e) ?near ?h ?e = (?near, ?e, [])" by blast
  from 1 2 show ?thesis by blast
qed

subsection \<open>The shared hub\<close>

lemma GridState_update_heap:
  "fst (snd (GridState_update others g h e)) =
     (if gameOver g then h else wormhole_update_at (grid_wormhole g) h)"
  by (simp add: GridState_update_def Let_def split_def)

lemma updateGrids_heap:
  "fst (snd (updateGrids done gs h e)) =
     foldl (\<lambda>h g. if gameOver g then h else wormhole_update_at (grid_wormhole g) h) h gs"
proof (induction gs arbitrary: "done" h e)
  case Nil
  show ?case by simp
next
  case (Cons g gs)
  show ?case
    by (simp add: split_def Let_def Cons.IH GridState_update_heap)
qed

lemma Game_setup_two_bots:
  "fst (Game_setup 2) = 0"
  "map grid_wormhole (fst (snd (Game_setup 2))) = [0, 0, 0]"
  "map gameOver (fst (snd (Game_setup 2))) = [False, False, False]"
  "cells (snd (snd (Game_setup 2))) 0 = Some Wormhole_new"
  by (simp_all add: Game_setup_def setupGrids_def GridState_new_def alloc_wormhole_def
        empty_heap_def split_def Let_def upt_rec [of 0] upt_rec [of 1] upt_rec [of 2])


lemma wormhole_update_at_rotation:
  "cells h r = Some w \<Longrightarrow>
     cells (wormhole_update_at r h) r = Some (Wormhole_update w)"
  by (simp add: wormhole_update_at_def)

lemma Wormhole_update_rotation:
  "wh_rotation (Wormhole_update w) = wh_rotation w + WORMHOLE_ROTATION_SPEED"
  by (simp add: Wormhole_update_def Let_def)

text \<open>
  C3 fails on the code. In the game as set up with two bots, every grid holds the
  orchestrator's shared wormhole, whose rotation starts at 0. One \<open>update\<close> of the
  player's grid alone advances the shared rotation by one step, and one physics step
  (the orchestrator's update followed by the three grids' updates) advances it by four
  steps, not one.
\<close>

theorem shared_wormhole_advanced_by_every_grid:
  "map_option wh_rotation (cells (snd (snd (Game_setup 2))) (fst (Game_setup 2))) = Some 0
 \<and> map_option wh_rotation
      (cells (fst (snd (GridState_update others (hd (fst (snd (Game_setup 2))))
                          (snd (snd (Game_setup 2))) e)))
         (fst (Game_setup 2))) = Some WORMHOLE_ROTATION_SPEED
 \<and> map_option wh_rotation
      (cells (fst (snd (updateWormholeAndGrids (fst (Game_setup 2)) (fst (snd (Game_setup 2)))
                          (snd (snd (Game_setup 2))) e)))
         (fst (Game_setup 2))) = Some (4 * WORMHOLE_ROTATION_SPEED)"
proof -
  let ?h = "snd (snd (Game_setup 2))"
  from Game_setup_two_bots(2) obtain p b1 b2 where
    gs: "fst (snd (Game_setup 2)) = [p, b1, b2]"
    by (auto simp: map_eq_Cons_conv)
  from Game_setup_two_bots(2,3) gs have
    w: "grid_wormhole p = 0" "grid_wormhole b1 = 0" "grid_wormhole b2 = 0" and
    o: "\<not> gameOver p" "\<not> gameOver b1" "\<not> gameOver b2"
    by simp_all
  note c = Game_setup_two_bots(4)
  have 0: "map_option wh_rotation (cells ?h 0) = Some 0"
    by (simp add: c Wormhole_new_def)
  have 1: "map_option wh_rotation
      (cells (fst (snd (GridState_update others p ?h e))) 0) = Some WORMHOLE_ROTATION_SPEED"
    by (simp add: GridState_update_heap o w wormhole_update_at_rotation [OF c]
          Wormhole_update_rotation Wormhole_new_def)
  let ?h1 = "wormhole_update_at 0 ?h"
  let ?h2 = "wormhole_update_at 0 ?h1"
  let ?h3 = "wormhole_update_at 0 ?h2"
  let ?h4 = "wormhole_update_at 0 ?h3"
  let ?w1 = "Wormhole_update Wormhole_new"
  let ?w2 = "Wormhole_update ?w1"
  let ?w3 = "Wormhole_update ?w2"
  let ?w4 = "Wormhole_update ?w3"
  have c1: "cells ?h1 0 = Some ?w1" by (rule wormhole_update_at_rotation [OF c])
  have c2: "cells ?h2 0 = Some ?w2" by (rule wormhole_update_at_rotation [OF c1])
  have c3: "cells ?h3 0 = Some ?w3" by (rule wormhole_update_at_rotation [OF c2])
  have c4: "cells ?h4 0 = Some ?w4" by (rule wormhole_update_at_rotation [OF c3])
  have "fst (snd (updateWormholeAndGrids 0 [p, b1, b2] ?h e)) =
          foldl (\<lambda>h g. if gameOver g then h else wormhole_update_at (grid_wormhole g) h)
            ?h1 [p, b1, b2]"
    by (simp only: updateWormholeAndGrids_def Let_def updateGrids_heap)
  also have "\<dots> = ?h4"
    by (simp add: o w)
  finally have 2: "map_option wh_rotation
      (cells (fst (snd (updateWormholeAndGrids 0 [p, b1, b2] ?h e))) 0)
        = Some (4 * WORMHOLE_ROTATION_SPEED)"
    by (simp add: c4 Wormhole_update_rotation Wormhole_new_def)
  from 0 1 2 show ?thesis
    by (simp add: gs Game_setup_two_bots(1))
qed

subsection \<open>Invariants of the model\<close>

lemma spawnEdge_range:
  "\<lfloor>fst (Math_random e) * 4\<rfloor> \<in> {0, 1, 2, 3}"
proof -
  define k where "k = \<lfloor>fst (Math_random e) * 4\<rfloor>"
  have "0 \<le> fst (Math_random e)" "fst (Math_random e) < 1"
    by (simp_all add: Math_random_def frac_lt_1)
  then have "0 \<le> k" "k < 4"
    by (simp_all add: k_def floor_less_iff)
  then have "k \<in> {0, 1, 2, 3}" by auto
  then show ?thesis by (simp only: k_def)
qed

lemma cargo_slots_kept:
  "length (cargo (snd (addCargo t s))) = length (cargo s)"
  "length (cargo (snd (clearCargo s))) = length (cargo s)"
  "length (cargo (snd (takeDamage s))) = length (cargo s)"
  "length (cargo (Ship_update s)) = length (cargo s)"
  "length (cargo (Ship_new a b)) = MAX_CARGO_SLOTS"
  by (simp_all add: addCargo_def clearCargo_def takeDamage_def Let_def Ship_update_keeps
        Ship_new_def split: option.splits)

subsection \<open>Banking never yields a nuke\<close>

lemma bankOrbs_success:
  assumes "isInBankingZone_at h (grid_wormhole g) (ship_position (grid_ship g))"
    and "\<not> isCargoEmpty (grid_ship g)"
  shows "lastAttackResult (fst (bankOrbs notify g h e)) =
           Some (fst (translateCargoToAttack (fst (clearCargo (grid_ship g))) (grid_owner g)
                   (wormhole_position_at h (grid_wormhole g))
                   (notify (grid_owner g) (fst (clearCargo (grid_ship g))) e)))"
    and "snd (snd (bankOrbs notify g h e)) =
           [BankOrbs (grid_owner g) (fst (clearCargo (grid_ship g)))]"
  using assms by (simp_all add: bankOrbs_def Let_def split_def)


lemma bankOrbs_skipped:
  "\<not> (isInBankingZone_at h (grid_wormhole g) (ship_position (grid_ship g))
        \<and> \<not> isCargoEmpty (grid_ship g)) \<Longrightarrow> bankOrbs notify g h e = (g, e, [])"
  by (auto simp: bankOrbs_def Let_def)

text \<open>
  C10. A cargo sequence of length at most 4 never yields tier 4 and never spawns a nuke.
  In particular the sequence returned by \<open>clearCargo\<close> on a ship with its 4 cargo slots
  has length at most 4, so translating it never yields tier 4 or a nuke; and \<open>bankOrbs\<close>
  on a grid whose ship has its 4 cargo slots either does nothing or banks at most 4 orbs
  and stores an attack result that is not tier 4 and holds no nuke.
\<close>

theorem short_cargo_never_nuke:
  "(length orbs \<le> 4 \<longrightarrow>
      tier (fst (translateCargoToAttack orbs ship wp e)) \<noteq> TIER_4
    \<and> (\<forall>hz \<in> set (hazards (fst (translateCargoToAttack orbs ship wp e))). hazard_type hz \<noteq> NUKE))
 \<and> (length (cargo s) = MAX_CARGO_SLOTS \<longrightarrow>
      length (fst (clearCargo s)) \<le> 4
    \<and> tier (fst (translateCargoToAttack (fst (clearCargo s)) ship wp e)) \<noteq> TIER_4
    \<and> (\<forall>hz \<in> set (hazards (fst (translateCargoToAttack (fst (clearCargo s)) ship wp e))).
          hazard_type hz \<noteq> NUKE))
 \<and> (length (cargo (grid_ship g)) = MAX_CARGO_SLOTS \<longrightarrow>
      bankOrbs notify g h e = (g, e, [])
    \<or> (\<exists>r banked.
          lastAttackResult (fst (bankOrbs notify g h e)) = Some r
        \<and> tier r \<noteq> TIER_4
        \<and> (\<forall>hz \<in> set (hazards r). hazard_type hz \<noteq> NUKE)
        \<and> snd (snd (bankOrbs notify g h e)) = [BankOrbs (grid_owner g) banked]
        \<and> length banked \<le> 4))"
proof -
  have short: "count_list xs GOLD < 8" if "length xs \<le> 4" for xs :: "OrbType list"
    using count_list_le_length [of xs GOLD] that by linarith
  have cleared: "length (fst (clearCargo s')) \<le> 4" if "length (cargo s') = MAX_CARGO_SLOTS" for s'
    using clearCargo_length [of s'] that by (simp add: MAX_CARGO_SLOTS_def)
  have 1: "length orbs \<le> 4 \<longrightarrow>
      tier (fst (translateCargoToAttack orbs ship wp e)) \<noteq> TIER_4
    \<and> (\<forall>hz \<in> set (hazards (fst (translateCargoToAttack orbs ship wp e))). hazard_type hz \<noteq> NUKE)"
    using translate_no_nuke [OF short] by blast
  have 2: "length (cargo s) = MAX_CARGO_SLOTS \<longrightarrow>
      length (fst (clearCargo s)) \<le> 4
    \<and> tier (fst (translateCargoToAttack (fst (clearCargo s)) ship wp e)) \<noteq> TIER_4
    \<and> (\<forall>hz \<in> set (hazards (fst (translateCargoToAttack (fst (clearCargo s)) ship wp e))).
          hazard_type hz \<noteq> NUKE)"
    using cleared [of s] translate_no_nuke [OF short [OF cleared [of s]]] by blast
  have 3: "length (cargo (grid_ship g)) = MAX_CARGO_SLOTS \<longrightarrow>
      bankOrbs notify g h e = (g, e, [])
    \<or> (\<exists>r banked.
          lastAttackResult (fst (bankOrbs notify g h e)) = Some r
        \<and> tier r \<noteq> TIER_4
        \<and> (\<forall>hz \<in> set (hazards r). hazard_type hz \<noteq> NUKE)
        \<and> snd (snd (bankOrbs notify g h e)) = [BankOrbs (grid_owner g) banked]
        \<and> length banked \<le> 4)"
  proof
    assume len: "length (cargo (grid_ship g)) = MAX_CARGO_SLOTS"
    let ?banked = "fst (clearCargo (grid_ship g))"
    let ?r = "fst (translateCargoToAttack ?banked (grid_owner g)
                   (wormhole_position_at h (grid_wormhole g))
                   (notify (grid_owner g) ?banked e))"
    show "bankOrbs notify g h e = (g, e, [])
    \<or> (\<exists>r banked.
          lastAttackResult (fst (bankOrbs notify g h e)) = Some r
        \<and> tier r \<noteq> TIER_4
        \<and> (\<forall>hz \<in> set (hazards r). hazard_type hz \<noteq> NUKE)
        \<and> snd (snd (bankOrbs notify g h e)) = [BankOrbs (grid_owner g) banked]
        \<and> length banked \<le> 4)"
    proof (cases "isInBankingZone_at h (grid_wormhole g) (ship_position (grid_ship g))
        \<and> \<not> isCargoEmpty (grid_ship g)")
      case False
      then show ?thesis by (simp only: bankOrbs_skipped simp_thms)
    next
      case True
      from True have z: "isInBankingZone_at h (grid_wormhole g) (ship_position (grid_ship g))"
        and n: "\<not> isCargoEmpty (grid_ship g)" by simp_all
      note a = bankOrbs_success(1) [OF z n, of notify e]
      note b = bankOrbs_success(2) [OF z n, of notify e]
      from cleared [OF len] have c: "length ?banked \<le> 4" .
      from translate_no_nuke [OF short [OF c]]
      have d: "tier ?r \<noteq> TIER_4 \<and> (\<forall>hz \<in> set (hazards ?r). hazard_type hz \<noteq> NUKE)" .
      from a b c d show ?thesis by blast
    qed
  qed
  from 1 2 3 show ?thesis by blast
qed

theorem short_cargo_never_nuke_witness:
  "tier (fst (translateCargoToAttack [GOLD, GOLD, GOLD, GOLD] Player (Vec2_new 600 400)
       \<lparr>random_src = (\<lambda>_. 0), hazardIdCounter = 0, orbNextId = 0\<rparr>)) \<noteq> TIER_4
 \<and> tier (fst (translateCargoToAttack
       (fst (clearCargo ((Ship_new 600 600)\<lparr>cargo := [Some GOLD, Some GOLD, Some GOLD, Some GOLD]\<rparr>)))
       Player (Vec2_new 600 400)
       \<lparr>random_src = (\<lambda>_. 0), hazardIdCounter = 0, orbNextId = 0\<rparr>)) \<noteq> TIER_4
 \<and> (bankOrbs (\<lambda>_ _ e. e)
        ((fst (GridState_new Player True 600 450 (Some 0)
                 (snd (alloc_wormhole Wormhole_new empty_heap))))
           \<lparr>grid_ship := (Ship_new 600 450)\<lparr>cargo := [Some GOLD, Some GOLD, Some GOLD, Some GOLD]\<rparr>\<rparr>)
        (snd (alloc_wormhole Wormhole_new empty_heap))
        \<lparr>random_src = (\<lambda>_. 0), hazardIdCounter = 0, orbNextId = 0\<rparr>
      = ((fst (GridState_new Player True 600 450 (Some 0)
                 (snd (alloc_wormhole Wormhole_new empty_heap))))
           \<lparr>grid_ship := (Ship_new 600 450)\<lparr>cargo := [Some GOLD, Some GOLD, Some GOLD, Some GOLD]\<rparr>\<rparr>,
         \<lparr>random_src = (\<lambda>_. 0), hazardIdCounter = 0, orbNextId = 0\<rparr>, [])
    \<or> (\<exists>r. lastAttackResult (fst (bankOrbs (\<lambda>_ _ e. e)
        ((fst (GridState_new Player True 600 450 (Some 0)
                 (snd (alloc_wormhole Wormhole_new empty_heap))))
           \<lparr>grid_ship := (Ship_new 600 450)\<lparr>cargo := [Some GOLD, Some GOLD, Some GOLD, Some GOLD]\<rparr>\<rparr>)
        (snd (alloc_wormhole Wormhole_new empty_heap))
        \<lparr>random_src = (\<lambda>_. 0), hazardIdCounter = 0, orbNextId = 0\<rparr>)) = Some r
         \<and> tier r \<noteq> TIER_4))"
proof -
  let ?e = "\<lparr>random_src = (\<lambda>_. 0), hazardIdCounter = 0, orbNextId = 0\<rparr>"
  let ?s = "(Ship_new 600 600)\<lparr>cargo := [Some GOLD, Some GOLD, Some GOLD, Some GOLD]\<rparr>"
  let ?h = "snd (alloc_wormhole Wormhole_new empty_heap)"
  let ?g = "(fst (GridState_new Player True 600 450 (Some 0) ?h))
           \<lparr>grid_ship := (Ship_new 600 450)\<lparr>cargo := [Some GOLD, Some GOLD, Some GOLD, Some GOLD]\<rparr>\<rparr>"
  have l: "length [GOLD, GOLD, GOLD, GOLD] \<le> 4" "length (cargo ?s) = MAX_CARGO_SLOTS"
      "length (cargo (grid_ship ?g)) = MAX_CARGO_SLOTS"
    by (simp_all add: MAX_CARGO_SLOTS_def)
  from short_cargo_never_nuke
         [of "[GOLD, GOLD, GOLD, GOLD]" Player "Vec2_new 600 400" ?e ?s ?g "\<lambda>_ _ e. e" ?h] l
  show ?thesis by blast
qed

end
